theory Spec2Isabelle
  imports Complex_Main
begin

section \<open>Survey dashboard (dineth.py): data model\<close>

text \<open>
  The program is one Python file: \<^verbatim>\<open>generate_survey_data\<close> fabricates survey rows from
  random draws, and the callback \<^verbatim>\<open>update_dashboard\<close> appends one row to the global
  DataFrame \<^verbatim>\<open>df_global\<close>, filters it, and builds three figures and a text.

  Python floats are modelled as \<open>real\<close>: every comparison of the source is against an
  integer constant, which a float represents exactly. The sums of lines 104-105 are exact
  in \<open>update_dashboard\<close>; the doubles they give are \<open>scatter_points_with fl\<close>, further
  down. Python strings are \<open>string\<close>; the
  en dash (U+2013) of the bucket labels is written as its three UTF-8 bytes, which keeps
  string equality and emptiness as Python has them.
\<close>

definition en_dash :: string where
  "en_dash = [CHR 0xE2, CHR 0x80, CHR 0x93]"

text \<open>One row of the DataFrame: the dict \<^verbatim>\<open>row\<close> built at lines 40-46.\<close>

record row =
  Program_of_Study :: string
  Average_Daily_SM_Usage :: string
  Daily_Study_Work_Hours :: string
  Distraction_Frequency :: string
  Productivity_Impact :: string

text \<open>
  A DataFrame as this program uses it: the five categorical columns, held row by row,
  and the two numeric columns \<^verbatim>\<open>SM_Numeric\<close> and \<^verbatim>\<open>Study_Numeric\<close> that
  \<^verbatim>\<open>update_dashboard\<close> assigns. A numeric column is \<open>None\<close> while the frame has no such
  column; a cell of it is \<open>None\<close> when it is NaN.
\<close>

record frame =
  rows :: "row list"
  SM_Numeric :: "real option list option"
  Study_Numeric :: "real option list option"

definition DataFrame :: "row list \<Rightarrow> frame" where
  "DataFrame rs = \<lparr>rows = rs, SM_Numeric = None, Study_Numeric = None\<rparr>"

section \<open>The random source\<close>

text \<open>
  The calls into \<^verbatim>\<open>np.random\<close> are the program's only inputs besides the callback's
  arguments. Each call's raw sample is an argument of the model: the index that
  \<^verbatim>\<open>choice(programs)\<close> draws with \<^verbatim>\<open>randint(0, 4)\<close>, the value of \<^verbatim>\<open>normal(5, 2.5)\<close>, and the
  unit samples in \<open>[0, 1)\<close> behind the three weighted choices.
\<close>

record draw =
  program_index :: nat
  hidden_sm_score :: real
  u_distraction :: real
  u_impact :: real
  u_study :: real

definition unit_sample :: "real \<Rightarrow> bool" where
  "unit_sample u = (0 \<le> u \<and> u < 1)"

definition valid_draw :: "draw \<Rightarrow> bool" where
  "valid_draw d =
     (program_index d < 4 \<and> unit_sample (u_distraction d) \<and>
      unit_sample (u_impact d) \<and> unit_sample (u_study d))"

text \<open>\<^verbatim>\<open>np.random.choice(a)\<close>: the element at a uniformly drawn index.\<close>

definition choice :: "'a list \<Rightarrow> nat \<Rightarrow> 'a" where
  "choice a k = a ! k"

text \<open>
  \<^verbatim>\<open>np.random.choice(a, p=p)\<close>: numpy takes the cumulative sums of \<open>p\<close>, divides them by
  the last one, and returns the element at \<^verbatim>\<open>cdf.searchsorted(u, side='right')\<close>. The
  sums are exact here and doubles in numpy: for a sample between the two the index
  differs, and the element is one of \<open>a\<close> either way.
\<close>

fun cumsum_from :: "real \<Rightarrow> real list \<Rightarrow> real list" where
  "cumsum_from acc [] = []"
| "cumsum_from acc (p # ps) = (acc + p) # cumsum_from (acc + p) ps"

definition cumsum :: "real list \<Rightarrow> real list" where
  "cumsum ps = cumsum_from 0 ps"

definition searchsorted_right :: "real list \<Rightarrow> real \<Rightarrow> nat" where
  "searchsorted_right cdf u = length (takeWhile (\<lambda>c. c \<le> u) cdf)"

definition choice_p :: "'a list \<Rightarrow> real list \<Rightarrow> real \<Rightarrow> 'a" where
  "choice_p a p u =
     (let cdf = cumsum p; cdf = map (\<lambda>c. c / last cdf) cdf
      in a ! searchsorted_right cdf u)"

text \<open>
  \<^verbatim>\<open>np.random.uniform(low, high, n)\<close>: \<open>n\<close> values \<open>low + (high - low) * u\<close>, one
  unit sample \<open>u\<close> each.
\<close>

definition uniform :: "real \<Rightarrow> real \<Rightarrow> nat \<Rightarrow> (nat \<Rightarrow> real) \<Rightarrow> real list" where
  "uniform low high n u = map (\<lambda>i. low + (high - low) * u i) [0..<n]"

section \<open>Data generation\<close>

definition programs :: "string list" where
  "programs = [''Data science'', ''Fashion design'', ''Arts and Interior Architecture'',
     ''Psychology & Counselling'']"

text \<open>The body of the loop of \<^verbatim>\<open>generate_survey_data\<close> (lines 17-46), for one draw.\<close>

definition generate_row :: "draw \<Rightarrow> row" where
  "generate_row d =
     (let program = choice programs (program_index d);
          score = hidden_sm_score d;
          sm_choice =
            (if score < 2 then ''Less than 1 hour''
             else if score < 4 then ''1'' @ en_dash @ ''2 hours''
             else if score < 6 then ''3'' @ en_dash @ ''4 hours''
             else if score < 8 then ''5'' @ en_dash @ ''6 hours''
             else ''More than 6 hours'');
          (distraction, impact, study_choice) =
            (if score > 6 then
               (choice_p [''Often'', ''Always''] [0.4, 0.6] (u_distraction d),
                choice_p [''Somewhat Negative'', ''Strongly Negative''] [0.4, 0.6] (u_impact d),
                choice_p [''Less than 2 hours'', ''2'' @ en_dash @ ''4 hours''] [0.6, 0.4]
                  (u_study d))
             else if score < 3 then
               (choice_p [''Never'', ''Rarely''] [0.3, 0.7] (u_distraction d),
                choice_p [''Strongly Positive'', ''Somewhat Positive'', ''Neutral'']
                  [0.2, 0.3, 0.5] (u_impact d),
                choice_p [''5'' @ en_dash @ ''7 hours'', ''8+ hours''] [0.6, 0.4] (u_study d))
             else
               (choice_p [''Sometimes'', ''Often''] [0.7, 0.3] (u_distraction d),
                choice_p [''Neutral'', ''Somewhat Negative''] [0.7, 0.3] (u_impact d),
                choice_p [''2'' @ en_dash @ ''4 hours'', ''5'' @ en_dash @ ''7 hours'']
                  [0.5, 0.5] (u_study d)))
      in \<lparr>Program_of_Study = program,
          Average_Daily_SM_Usage = sm_choice,
          Daily_Study_Work_Hours = study_choice,
          Distraction_Frequency = distraction,
          Productivity_Impact = impact\<rparr>)"

text \<open>
  \<^verbatim>\<open>generate_survey_data(n)\<close>: \<^verbatim>\<open>range(n)\<close> runs \<open>nat n\<close> times (no time for a negative
  \<open>n\<close>); iteration \<open>i\<close> uses the draws \<open>rng i\<close>.
\<close>

definition generate_survey_data :: "int \<Rightarrow> (nat \<Rightarrow> draw) \<Rightarrow> frame" where
  "generate_survey_data n rng = DataFrame (map (\<lambda>i. generate_row (rng i)) [0..<nat n])"

section \<open>The dashboard callback\<close>

text \<open>The two dicts of lines 51-52. \<^verbatim>\<open>Series.map(dict)\<close> gives NaN for a missing key.\<close>

definition sm_map :: "string \<rightharpoonup> real" where
  "sm_map = map_of [(''Less than 1 hour'', 0.5), (''1'' @ en_dash @ ''2 hours'', 1.5),
     (''3'' @ en_dash @ ''4 hours'', 3.5), (''5'' @ en_dash @ ''6 hours'', 5.5),
     (''More than 6 hours'', 7)]"

definition study_map :: "string \<rightharpoonup> real" where
  "study_map = map_of [(''Less than 2 hours'', 1), (''2'' @ en_dash @ ''4 hours'', 3),
     (''5'' @ en_dash @ ''7 hours'', 6), (''8+ hours'', 9)]"

subsection \<open>The pandas operations the callback uses\<close>

text \<open>
  \<^verbatim>\<open>pd.concat([a, b], ignore_index=True)\<close>: a new frame with the rows of \<open>a\<close>, then those
  of \<open>b\<close>; a column that only one of the two has is NaN on the rows of the other.
\<close>

fun concat_column ::
  "nat \<Rightarrow> 'a option list option \<Rightarrow> nat \<Rightarrow> 'a option list option \<Rightarrow> 'a option list option"
where
  "concat_column la None lb None = None"
| "concat_column la (Some a) lb None = Some (a @ replicate lb None)"
| "concat_column la None lb (Some b) = Some (replicate la None @ b)"
| "concat_column la (Some a) lb (Some b) = Some (a @ b)"

definition pd_concat :: "frame \<Rightarrow> frame \<Rightarrow> frame" where
  "pd_concat a b =
     \<lparr>rows = rows a @ rows b,
      SM_Numeric =
        concat_column (length (rows a)) (SM_Numeric a) (length (rows b)) (SM_Numeric b),
      Study_Numeric =
        concat_column (length (rows a)) (Study_Numeric a) (length (rows b)) (Study_Numeric b)\<rparr>"

text \<open>\<^verbatim>\<open>df[mask]\<close>: the rows where the boolean mask holds, in every column.\<close>

definition pick :: "bool list \<Rightarrow> 'a list \<Rightarrow> 'a list" where
  "pick keep xs = map snd (filter fst (zip keep xs))"

definition select_rows :: "bool list \<Rightarrow> frame \<Rightarrow> frame" where
  "select_rows keep df =
     \<lparr>rows = pick keep (rows df),
      SM_Numeric = map_option (pick keep) (SM_Numeric df),
      Study_Numeric = map_option (pick keep) (Study_Numeric df)\<rparr>"

text \<open>
  \<^verbatim>\<open>series += array\<close>, cell by cell; NaN stays NaN. The sum is the exact one;
  \<open>add_array_with\<close> below rounds it as the doubles do.
\<close>

definition add_array :: "real option list \<Rightarrow> real list \<Rightarrow> real option list" where
  "add_array col arr = map (\<lambda>(c, j). map_option (\<lambda>v. v + j) c) (zip col arr)"

text \<open>
  \<^verbatim>\<open>Series.value_counts()\<close>: each distinct entry with the number of its occurrences,
  the larger count first. Entries with equal counts are kept in the order of their first
  occurrence here.
\<close>

definition unique :: "'a list \<Rightarrow> 'a list" where
  "unique xs = rev (remdups (rev xs))"

definition value_counts :: "string list \<Rightarrow> (string \<times> nat) list" where
  "value_counts xs =
     sort_key (\<lambda>(v, c). - int c) (map (\<lambda>v. (v, count_list xs v)) (unique xs))"

text \<open>\<^verbatim>\<open>str\<close> of a non-negative Python int: its decimal digits.\<close>

definition digit :: "nat \<Rightarrow> char" where
  "digit k = ''0123456789'' ! k"

fun str_nat :: "nat \<Rightarrow> string" where
  "str_nat n = (if n < 10 then [digit n] else str_nat (n div 10) @ [digit (n mod 10)])"

declare str_nat.simps [simp del]

subsection \<open>Figures\<close>

text \<open>
  What the three plotly figures are built from: the scatter's title and its points
  (x, y, colour) in row order; the bar chart's (category, count) pairs; the labels the
  pie chart counts.
\<close>

record scatter_spec =
  scatter_title :: string
  points :: "(real option \<times> real option \<times> string) list"

record bar_spec =
  bar_title :: string
  bars :: "(string \<times> nat) list"

record pie_spec =
  pie_title :: string
  names :: "string list"

record outputs =
  scatter_plot :: scatter_spec
  distraction_bar :: bar_spec
  impact_pie :: pie_spec
  live_stats :: string

subsection \<open>update\_dashboard\<close>

text \<open>
  Two DataFrame objects are alive in a call: the result of \<^verbatim>\<open>pd.concat\<close>, which the
  global \<^verbatim>\<open>df_global\<close> is rebound to, and the \<^verbatim>\<open>.copy()\<close> of the filtered rows. The
  local \<^verbatim>\<open>filtered_df\<close> is a reference to one of them: line 98 rebinds it to the global's
  object without a copy. The heap maps each object to its contents, and every column
  assignment of lines 101-105 writes through the reference.
\<close>

datatype ref = Concat_result | Filter_copy

type_synonym heap = "ref \<Rightarrow> frame"

definition set_SM_Numeric :: "ref \<Rightarrow> real option list option \<Rightarrow> heap \<Rightarrow> heap" where
  "set_SM_Numeric r col h = h(r := (h r)\<lparr>SM_Numeric := col\<rparr>)"

definition set_Study_Numeric :: "ref \<Rightarrow> real option list option \<Rightarrow> heap \<Rightarrow> heap" where
  "set_Study_Numeric r col h = h(r := (h r)\<lparr>Study_Numeric := col\<rparr>)"

text \<open>
  The arguments after the callback's own (\<open>n\<close>, the unused interval count, and
  \<open>selected_program\<close>) are the random source: the draws of the new row and the unit
  samples behind the two \<^verbatim>\<open>np.random.uniform\<close> calls. The result is the new value of
  \<^verbatim>\<open>df_global\<close> and the returned tuple.
\<close>

definition update_dashboard ::
  "frame \<Rightarrow> int \<Rightarrow> string \<Rightarrow> (nat \<Rightarrow> draw) \<Rightarrow> (nat \<Rightarrow> real) \<Rightarrow> (nat \<Rightarrow> real) \<Rightarrow> frame \<times> outputs"
where
  "update_dashboard df_global n selected_program rng ux uy =
     (let new_entry = generate_survey_data 1 rng;
          g = pd_concat df_global new_entry;
          keep = map (\<lambda>r. Program_of_Study r = selected_program) (rows g);
          h = (\<lambda>r. case r of Concat_result \<Rightarrow> g | Filter_copy \<Rightarrow> select_rows keep g);
          filtered_df = (if rows (h Filter_copy) = [] then Concat_result else Filter_copy);
          h = set_SM_Numeric filtered_df
                (Some (map (\<lambda>r. sm_map (Average_Daily_SM_Usage r)) (rows (h filtered_df)))) h;
          h = set_Study_Numeric filtered_df
                (Some (map (\<lambda>r. study_map (Daily_Study_Work_Hours r)) (rows (h filtered_df)))) h;
          h = set_SM_Numeric filtered_df
                (map_option
                   (\<lambda>col. add_array col (uniform (- 0.3) 0.3 (length (rows (h filtered_df))) ux))
                   (SM_Numeric (h filtered_df))) h;
          h = set_Study_Numeric filtered_df
                (map_option
                   (\<lambda>col. add_array col (uniform (- 0.3) 0.3 (length (rows (h filtered_df))) uy))
                   (Study_Numeric (h filtered_df))) h;
          fig1 = \<lparr>scatter_title = ''Correlation ('' @ selected_program @ '')'',
                  points = zip (the (SM_Numeric (h filtered_df)))
                             (zip (the (Study_Numeric (h filtered_df)))
                                (map Distraction_Frequency (rows (h filtered_df))))\<rparr>;
          counts = value_counts (map Distraction_Frequency (rows (h filtered_df)));
          fig2 = \<lparr>bar_title = ''Distraction Frequency'', bars = counts\<rparr>;
          fig3 = \<lparr>pie_title = ''Perceived Impact'',
                  names = map Productivity_Impact (rows (h filtered_df))\<rparr>
      in (h Concat_result,
          \<lparr>scatter_plot = fig1, distraction_bar = fig2, impact_pie = fig3,
           live_stats = ''Total Responses: '' @ str_nat (length (rows (h Concat_result)))\<rparr>))"

section \<open>Notions the properties are stated with\<close>

text \<open>
  The three branches of lines 27-38, named as the source's comments name them
  (\<^verbatim>\<open># Heavy user\<close>, \<^verbatim>\<open># Light user\<close>, \<^verbatim>\<open># Average user\<close>), with the branch
  conditions in the source's order.
\<close>

datatype regime = Heavy | Light | Average

definition regime_of :: "real \<Rightarrow> regime" where
  "regime_of score = (if score > 6 then Heavy else if score < 3 then Light else Average)"

text \<open>The lists the three branches choose from (lines 28-30, 32-34 and 36-38).\<close>

definition heavy_user :: "row \<Rightarrow> bool" where
  "heavy_user r =
     (Distraction_Frequency r \<in> {''Often'', ''Always''} \<and>
      Productivity_Impact r \<in> {''Somewhat Negative'', ''Strongly Negative''} \<and>
      Daily_Study_Work_Hours r \<in> {''Less than 2 hours'', ''2'' @ en_dash @ ''4 hours''})"

definition light_user :: "row \<Rightarrow> bool" where
  "light_user r =
     (Distraction_Frequency r \<in> {''Never'', ''Rarely''} \<and>
      Productivity_Impact r \<in> {''Strongly Positive'', ''Somewhat Positive'', ''Neutral''} \<and>
      Daily_Study_Work_Hours r \<in> {''5'' @ en_dash @ ''7 hours'', ''8+ hours''})"

definition average_user :: "row \<Rightarrow> bool" where
  "average_user r =
     (Distraction_Frequency r \<in> {''Sometimes'', ''Often''} \<and>
      Productivity_Impact r \<in> {''Neutral'', ''Somewhat Negative''} \<and>
      Daily_Study_Work_Hours r \<in> {''2'' @ en_dash @ ''4 hours'', ''5'' @ en_dash @ ''7 hours''})"

text \<open>
  The fixed domains of the five categorical fields: \<open>programs\<close> above, the keys of
  \<open>sm_map\<close> and of \<open>study_map\<close>, and the five distraction and five impact levels that
  the three branches name between them.
\<close>

definition usage_buckets :: "string list" where
  "usage_buckets = [''Less than 1 hour'', ''1'' @ en_dash @ ''2 hours'',
     ''3'' @ en_dash @ ''4 hours'', ''5'' @ en_dash @ ''6 hours'', ''More than 6 hours'']"

definition study_buckets :: "string list" where
  "study_buckets = [''Less than 2 hours'', ''2'' @ en_dash @ ''4 hours'',
     ''5'' @ en_dash @ ''7 hours'', ''8+ hours'']"

definition distraction_levels :: "string list" where
  "distraction_levels = [''Never'', ''Rarely'', ''Sometimes'', ''Often'', ''Always'']"

definition impact_levels :: "string list" where
  "impact_levels = [''Strongly Positive'', ''Somewhat Positive'', ''Neutral'',
     ''Somewhat Negative'', ''Strongly Negative'']"

subsection \<open>Concrete inputs\<close>

text \<open>A draw with a given score: the second program, and 0.5 as every unit sample.\<close>

definition draw_with_score :: "real \<Rightarrow> draw" where
  "draw_with_score s =
     \<lparr>program_index = 1, hidden_sm_score = s, u_distraction = 1/2, u_impact = 1/2,
      u_study = 1/2\<rparr>"

subsection \<open>Retained rows, chart data, call sequences\<close>

text \<open>
  The rows the figures are built from (lines 97-98): those of the selected program, or
  all rows when there is none.
\<close>

definition selected_rows :: "string \<Rightarrow> row list \<Rightarrow> row list" where
  "selected_rows selected_program rs = filter (\<lambda>r. Program_of_Study r = selected_program) rs"

definition retained_rows :: "string \<Rightarrow> row list \<Rightarrow> row list" where
  "retained_rows selected_program rs =
     (if selected_rows selected_program rs = [] then rs else selected_rows selected_program rs)"

text \<open>
  The value \<^verbatim>\<open>np.random.uniform(-0.3, 0.3, n)\<close> has at position \<open>i\<close>, for the unit
  samples \<open>u\<close>.
\<close>

definition jitter :: "(nat \<Rightarrow> real) \<Rightarrow> nat \<Rightarrow> real" where
  "jitter u i = - 0.3 + (0.3 - (- 0.3)) * u i"

text \<open>
  The chart data of the specification's steps 3 to 6 for a sequence of records: each
  record's point is its two midpoints, each plus its own jitter, with the distraction
  level as colour; the bars count the distraction levels; the pie is fed the impacts.
  A label with no midpoint gives NaN.
\<close>

definition charts_of ::
  "row list \<Rightarrow> (nat \<Rightarrow> real) \<Rightarrow> (nat \<Rightarrow> real) \<Rightarrow>
     (real option \<times> real option \<times> string) list \<times> (string \<times> nat) list \<times> string list"
where
  "charts_of rs ux uy =
     (map (\<lambda>i. (map_option (\<lambda>m. m + jitter ux i) (sm_map (Average_Daily_SM_Usage (rs ! i))),
                 map_option (\<lambda>m. m + jitter uy i) (study_map (Daily_Study_Work_Hours (rs ! i))),
                 Distraction_Frequency (rs ! i))) [0..<length rs],
      value_counts (map Distraction_Frequency rs),
      map Productivity_Impact rs)"

definition chart_data ::
  "outputs \<Rightarrow> (real option \<times> real option \<times> string) list \<times> (string \<times> nat) list \<times> string list"
where
  "chart_data out =
     (points (scatter_plot out), bars (distraction_bar out), names (impact_pie out))"

text \<open>
  The host framework calls the callback once per event, one call after the other, each
  on the \<^verbatim>\<open>df_global\<close> the call before left. An event carries the callback's two
  arguments and the random samples the call consumes. \<open>serve\<close> lists, for each call, the
  new \<^verbatim>\<open>df_global\<close> and the outputs.
\<close>

record event =
  n_intervals :: int
  selected :: string
  draws :: "nat \<Rightarrow> draw"
  samples_x :: "nat \<Rightarrow> real"
  samples_y :: "nat \<Rightarrow> real"

fun serve :: "frame \<Rightarrow> event list \<Rightarrow> (frame \<times> outputs) list" where
  "serve df [] = []"
| "serve df (e # es) =
     (let res = update_dashboard df (n_intervals e) (selected e) (draws e) (samples_x e)
                  (samples_y e)
      in res # serve (fst res) es)"

subsection \<open>Concrete datasets\<close>

text \<open>
  A start-up in which every one of the 100 draws of line 55 is the same: all rows are
  "Fashion design" rows with score 5.
\<close>

definition fashion_draw :: draw where
  "fashion_draw = draw_with_score 5"

definition fashion_row :: row where
  "fashion_row =
     \<lparr>Program_of_Study = ''Fashion design'',
      Average_Daily_SM_Usage = ''3'' @ en_dash @ ''4 hours'',
      Daily_Study_Work_Hours = ''5'' @ en_dash @ ''7 hours'',
      Distraction_Frequency = ''Sometimes'',
      Productivity_Impact = ''Neutral''\<rparr>"

definition startup :: frame where
  "startup = generate_survey_data 100 (\<lambda>_. fashion_draw)"

text \<open>Reading a decimal numeral back, to check \<open>str_nat\<close> against.\<close>

definition parse_nat :: "string \<Rightarrow> nat" where
  "parse_nat s = foldl (\<lambda>a c. 10 * a + (of_char c - 48)) 0 s"

text \<open>
  \<open>s\<close> is the decimal numeral of \<open>n\<close> as Python's \<^verbatim>\<open>str\<close> writes it: digits only, at
  least one, no leading zero but for 0 itself, and of value \<open>n\<close>.
\<close>

definition decimal_of :: "string \<Rightarrow> nat \<Rightarrow> bool" where
  "decimal_of s n =
     (s \<noteq> [] \<and> set s \<subseteq> set ''0123456789'' \<and> (hd s = CHR ''0'' \<longrightarrow> s = ''0'') \<and>
      parse_nat s = n)"

definition first_event :: event where
  "first_event =
     \<lparr>n_intervals = 0, selected = ''Data science'', draws = (\<lambda>_. fashion_draw),
      samples_x = (\<lambda>_. 0), samples_y = (\<lambda>_. 0)\<rparr>"

subsection \<open>Double arithmetic\<close>

text \<open>
  Lines 104-105 add in IEEE-754 double precision, and so does \<^verbatim>\<open>np.random.uniform\<close>.
  \<open>fl x\<close> is the double nearest to the real \<open>x\<close>, ties to the even mantissa: \<open>binade\<close> is
  the exponent of \<open>x\<close>, \<open>ulp\<close> the distance between neighbouring doubles around \<open>x\<close>
  (53-bit mantissas; below \<open>2 ^ - 1022\<close> the subnormal spacing), \<open>rne\<close> rounds the scaled
  value to an integer. Overflow is left out: no value of this program reaches 16.
\<close>

definition rne :: "real \<Rightarrow> int" where
  "rne y =
     (let f = \<lfloor>y\<rfloor>; r = y - of_int f
      in if r < 1 / 2 then f else if 1 / 2 < r then f + 1 else if even f then f else f + 1)"

definition binade :: "real \<Rightarrow> int" where
  "binade x = \<lfloor>log 2 \<bar>x\<bar>\<rfloor>"

definition ulp :: "real \<Rightarrow> real" where
  "ulp x = 2 powi (max (binade x) (- 1022) - 52)"

definition fl :: "real \<Rightarrow> real" where
  "fl x = sgn x * (of_int (rne (\<bar>x\<bar> / ulp x)) * ulp x)"

definition representable :: "real \<Rightarrow> bool" where
  "representable r = (\<exists>k::int. \<bar>r\<bar> = of_int k * ulp r)"

text \<open>
  The scatter's points (lines 101-105 and 107) with a rounding \<open>rnd\<close> applied wherever
  the program computes in doubles: at the literal \<^verbatim>\<open>0.3\<close> (\<^verbatim>\<open>-0.3\<close> is its negation), at
  \<^verbatim>\<open>high - low\<close>, at the product with the unit sample and at the sum inside
  \<^verbatim>\<open>np.random.uniform\<close>, and at the sum of midpoint and jitter. With \<open>rnd\<close> the identity
  these are the points of \<open>update_dashboard\<close> above; with \<open>fl\<close> they are the doubles that
  the program plots.
\<close>

definition uniform_with ::
  "(real \<Rightarrow> real) \<Rightarrow> real \<Rightarrow> real \<Rightarrow> nat \<Rightarrow> (nat \<Rightarrow> real) \<Rightarrow> real list"
where
  "uniform_with rnd low high n u = map (\<lambda>i. rnd (low + rnd (rnd (high - low) * u i))) [0..<n]"

definition add_array_with ::
  "(real \<Rightarrow> real) \<Rightarrow> real option list \<Rightarrow> real list \<Rightarrow> real option list"
where
  "add_array_with rnd col arr = map (\<lambda>(c, j). map_option (\<lambda>v. rnd (v + j)) c) (zip col arr)"

definition scatter_points_with ::
  "(real \<Rightarrow> real) \<Rightarrow> frame \<Rightarrow> string \<Rightarrow> (nat \<Rightarrow> draw) \<Rightarrow> (nat \<Rightarrow> real) \<Rightarrow> (nat \<Rightarrow> real) \<Rightarrow>
     (real option \<times> real option \<times> string) list"
where
  "scatter_points_with rnd df_global selected_program rng ux uy =
     (let g = pd_concat df_global (generate_survey_data 1 rng);
          kept = retained_rows selected_program (rows g);
          xs = add_array_with rnd (map (\<lambda>r. sm_map (Average_Daily_SM_Usage r)) kept)
                 (uniform_with rnd (- rnd 0.3) (rnd 0.3) (length kept) ux);
          ys = add_array_with rnd (map (\<lambda>r. study_map (Daily_Study_Work_Hours r)) kept)
                 (uniform_with rnd (- rnd 0.3) (rnd 0.3) (length kept) uy)
      in zip xs (zip ys (map Distraction_Frequency kept)))"

text \<open>A heavy "Data science" draw, and the row it generates.\<close>

definition science_draw :: draw where
  "science_draw =
     \<lparr>program_index = 0, hidden_sm_score = 7, u_distraction = 1/2, u_impact = 1/2,
      u_study = 1/2\<rparr>"

definition science_row :: row where
  "science_row =
     \<lparr>Program_of_Study = ''Data science'',
      Average_Daily_SM_Usage = ''5'' @ en_dash @ ''6 hours'',
      Daily_Study_Work_Hours = ''Less than 2 hours'',
      Distraction_Frequency = ''Always'',
      Productivity_Impact = ''Strongly Negative''\<rparr>"

section \<open>Properties of the generator\<close>

subsection \<open>The random choices stay inside their lists\<close>

lemma length_cumsum_from: "length (cumsum_from acc ps) = length ps"
  by (induction ps arbitrary: acc) simp_all

lemma takeWhile_stops_early: "\<exists>x\<in>set xs. \<not> P x \<Longrightarrow> length (takeWhile P xs) < length xs"
  by (induction xs) auto

lemma choice_p_in_set:
  assumes u: "unit_sample u" and len: "length a = length p" and ne: "p \<noteq> []"
    and pos: "0 < last (cumsum p)"
  shows "choice_p a p u \<in> set a"
proof -
  define cdf where "cdf = map (\<lambda>c. c / last (cumsum p)) (cumsum p)"
  have cne: "cumsum p \<noteq> []"
    using ne length_cumsum_from [of 0 p] by (auto simp: cumsum_def)
  have "last cdf = 1"
    using cne pos by (simp add: cdf_def last_map)
  moreover have "last cdf \<in> set cdf"
    using cne by (intro last_in_set) (simp add: cdf_def)
  ultimately have "\<exists>c\<in>set cdf. \<not> c \<le> u"
    using u by (auto simp: unit_sample_def intro!: bexI [of _ "last cdf"])
  then have "length (takeWhile (\<lambda>c. c \<le> u) cdf) < length cdf"
    by (rule takeWhile_stops_early)
  also have "length cdf = length a"
    by (simp add: cdf_def cumsum_def length_cumsum_from len)
  finally have "searchsorted_right cdf u < length a"
    by (simp add: searchsorted_right_def)
  then show ?thesis
    by (simp add: choice_p_def Let_def cdf_def)
qed

lemma choice_in_set: "k < length a \<Longrightarrow> choice a k \<in> set a"
  by (simp add: choice_def)

lemma program_generate_row:
  "Program_of_Study (generate_row d) = choice programs (program_index d)"
  by (simp add: generate_row_def Let_def split_beta)

lemma usage_generate_row:
  "Average_Daily_SM_Usage (generate_row d) =
     (let score = hidden_sm_score d in
      if score < 2 then ''Less than 1 hour''
      else if score < 4 then ''1'' @ en_dash @ ''2 hours''
      else if score < 6 then ''3'' @ en_dash @ ''4 hours''
      else if score < 8 then ''5'' @ en_dash @ ''6 hours''
      else ''More than 6 hours'')"
  by (simp add: generate_row_def Let_def split_beta)

lemma heavy_generate_row:
  assumes "valid_draw d" and "hidden_sm_score d > 6"
  shows "Distraction_Frequency (generate_row d) \<in> {''Often'', ''Always''}"
    and "Productivity_Impact (generate_row d) \<in> {''Somewhat Negative'', ''Strongly Negative''}"
    and "Daily_Study_Work_Hours (generate_row d) \<in>
           {''Less than 2 hours'', ''2'' @ en_dash @ ''4 hours''}"
proof -
  show "Distraction_Frequency (generate_row d) \<in> {''Often'', ''Always''}"
    using assms choice_p_in_set [of "u_distraction d" "[''Often'', ''Always'']" "[0.4, 0.6]"]
    by (simp add: generate_row_def Let_def valid_draw_def cumsum_def)
  show "Productivity_Impact (generate_row d) \<in> {''Somewhat Negative'', ''Strongly Negative''}"
    using assms
      choice_p_in_set [of "u_impact d" "[''Somewhat Negative'', ''Strongly Negative'']" "[0.4, 0.6]"]
    by (simp add: generate_row_def Let_def valid_draw_def cumsum_def)
  show "Daily_Study_Work_Hours (generate_row d) \<in>
           {''Less than 2 hours'', ''2'' @ en_dash @ ''4 hours''}"
    using assms
      choice_p_in_set [of "u_study d" "[''Less than 2 hours'', ''2'' @ en_dash @ ''4 hours'']"
        "[0.6, 0.4]"]
    by (simp add: generate_row_def Let_def valid_draw_def cumsum_def)
qed

lemma light_generate_row:
  assumes "valid_draw d" and "\<not> hidden_sm_score d > 6" and "hidden_sm_score d < 3"
  shows "Distraction_Frequency (generate_row d) \<in> {''Never'', ''Rarely''}"
    and "Productivity_Impact (generate_row d) \<in>
           {''Strongly Positive'', ''Somewhat Positive'', ''Neutral''}"
    and "Daily_Study_Work_Hours (generate_row d) \<in>
           {''5'' @ en_dash @ ''7 hours'', ''8+ hours''}"
proof -
  show "Distraction_Frequency (generate_row d) \<in> {''Never'', ''Rarely''}"
    using assms choice_p_in_set [of "u_distraction d" "[''Never'', ''Rarely'']" "[0.3, 0.7]"]
    by (simp add: generate_row_def Let_def valid_draw_def cumsum_def)
  show "Productivity_Impact (generate_row d) \<in>
           {''Strongly Positive'', ''Somewhat Positive'', ''Neutral''}"
    using assms
      choice_p_in_set [of "u_impact d" "[''Strongly Positive'', ''Somewhat Positive'', ''Neutral'']"
        "[0.2, 0.3, 0.5]"]
    by (simp add: generate_row_def Let_def valid_draw_def cumsum_def)
  show "Daily_Study_Work_Hours (generate_row d) \<in>
           {''5'' @ en_dash @ ''7 hours'', ''8+ hours''}"
    using assms
      choice_p_in_set [of "u_study d" "[''5'' @ en_dash @ ''7 hours'', ''8+ hours'']" "[0.6, 0.4]"]
    by (simp add: generate_row_def Let_def valid_draw_def cumsum_def)
qed

lemma average_generate_row:
  assumes "valid_draw d" and "\<not> hidden_sm_score d > 6" and "\<not> hidden_sm_score d < 3"
  shows "Distraction_Frequency (generate_row d) \<in> {''Sometimes'', ''Often''}"
    and "Productivity_Impact (generate_row d) \<in> {''Neutral'', ''Somewhat Negative''}"
    and "Daily_Study_Work_Hours (generate_row d) \<in>
           {''2'' @ en_dash @ ''4 hours'', ''5'' @ en_dash @ ''7 hours''}"
proof -
  show "Distraction_Frequency (generate_row d) \<in> {''Sometimes'', ''Often''}"
    using assms choice_p_in_set [of "u_distraction d" "[''Sometimes'', ''Often'']" "[0.7, 0.3]"]
    by (simp add: generate_row_def Let_def valid_draw_def cumsum_def)
  show "Productivity_Impact (generate_row d) \<in> {''Neutral'', ''Somewhat Negative''}"
    using assms
      choice_p_in_set [of "u_impact d" "[''Neutral'', ''Somewhat Negative'']" "[0.7, 0.3]"]
    by (simp add: generate_row_def Let_def valid_draw_def cumsum_def)
  show "Daily_Study_Work_Hours (generate_row d) \<in>
           {''2'' @ en_dash @ ''4 hours'', ''5'' @ en_dash @ ''7 hours''}"
    using assms
      choice_p_in_set [of "u_study d"
        "[''2'' @ en_dash @ ''4 hours'', ''5'' @ en_dash @ ''7 hours'']" "[0.5, 0.5]"]
    by (simp add: generate_row_def Let_def valid_draw_def cumsum_def)
qed

lemma rows_generate_survey_data:
  "rows (generate_survey_data n rng) = map (\<lambda>i. generate_row (rng i)) [0..<nat n]"
  by (simp add: generate_survey_data_def DataFrame_def)

lemma nth_generate_survey_data:
  "i < nat n \<Longrightarrow> rows (generate_survey_data n rng) ! i = generate_row (rng i)"
  by (simp add: rows_generate_survey_data)

lemma regime_generate_row:
  assumes "valid_draw d"
  shows "case regime_of (hidden_sm_score d) of
           Heavy \<Rightarrow> heavy_user (generate_row d)
         | Light \<Rightarrow> light_user (generate_row d)
         | Average \<Rightarrow> average_user (generate_row d)"
  using assms heavy_generate_row [of d] light_generate_row [of d] average_generate_row [of d]
  by (simp add: regime_of_def heavy_user_def light_user_def average_user_def)

subsection \<open>Usage buckets\<close>

text \<open>
  C1. In every generated record the usage bucket follows the record's hidden score by
  the fixed thresholds: below 2 it is "Less than 1 hour", from 2 to below 4 "1-2 hours",
  from 4 to below 6 "3-4 hours", from 6 to below 8 "5-6 hours", and from 8 on "More than
  6 hours". The score ranges over all reals, negative ones and ones above 10 included.
\<close>

theorem usage_bucket_thresholds:
  assumes "i < nat n"
  shows "let r = rows (generate_survey_data n rng) ! i; score = hidden_sm_score (rng i) in
           (score < 2 \<longrightarrow> Average_Daily_SM_Usage r = ''Less than 1 hour'') \<and>
           (2 \<le> score \<and> score < 4 \<longrightarrow> Average_Daily_SM_Usage r = ''1'' @ en_dash @ ''2 hours'') \<and>
           (4 \<le> score \<and> score < 6 \<longrightarrow> Average_Daily_SM_Usage r = ''3'' @ en_dash @ ''4 hours'') \<and>
           (6 \<le> score \<and> score < 8 \<longrightarrow> Average_Daily_SM_Usage r = ''5'' @ en_dash @ ''6 hours'') \<and>
           (8 \<le> score \<longrightarrow> Average_Daily_SM_Usage r = ''More than 6 hours'')"
  using assms by (simp add: nth_generate_survey_data usage_generate_row Let_def)

theorem usage_bucket_thresholds_witness:
  "(0::nat) < nat 3 \<and>
   Average_Daily_SM_Usage
     (rows (generate_survey_data 3 (\<lambda>i. draw_with_score (7 * real i - 3))) ! 0) =
     ''Less than 1 hour'' \<and>
   (2::nat) < nat 3 \<and>
   Average_Daily_SM_Usage
     (rows (generate_survey_data 3 (\<lambda>i. draw_with_score (7 * real i - 3))) ! 2) =
     ''More than 6 hours''"
  using usage_bucket_thresholds [of 0 3 "\<lambda>i. draw_with_score (7 * real i - 3)"]
    usage_bucket_thresholds [of 2 3 "\<lambda>i. draw_with_score (7 * real i - 3)"]
  by (simp add: Let_def draw_with_score_def)

subsection \<open>Regimes\<close>

text \<open>
  C2. The regime is a function of the score, so exactly one applies: Heavy exactly when
  the score is above 6, Light exactly when it is below 3, Average exactly when it lies
  in [3, 6]. The distraction, impact and study fields of every generated record come
  from the lists of the score's regime.
\<close>

theorem regime_partition:
  assumes "i < nat n" and "valid_draw (rng i)"
  shows "let r = rows (generate_survey_data n rng) ! i; score = hidden_sm_score (rng i) in
           (regime_of score = Heavy \<longleftrightarrow> score > 6) \<and>
           (regime_of score = Light \<longleftrightarrow> score < 3) \<and>
           (regime_of score = Average \<longleftrightarrow> 3 \<le> score \<and> score \<le> 6) \<and>
           (case regime_of score of
              Heavy \<Rightarrow>
                Distraction_Frequency r \<in> {''Often'', ''Always''} \<and>
                Productivity_Impact r \<in> {''Somewhat Negative'', ''Strongly Negative''} \<and>
                Daily_Study_Work_Hours r \<in> {''Less than 2 hours'', ''2'' @ en_dash @ ''4 hours''}
            | Light \<Rightarrow>
                Distraction_Frequency r \<in> {''Never'', ''Rarely''} \<and>
                Productivity_Impact r \<in>
                  {''Strongly Positive'', ''Somewhat Positive'', ''Neutral''} \<and>
                Daily_Study_Work_Hours r \<in> {''5'' @ en_dash @ ''7 hours'', ''8+ hours''}
            | Average \<Rightarrow>
                Distraction_Frequency r \<in> {''Sometimes'', ''Often''} \<and>
                Productivity_Impact r \<in> {''Neutral'', ''Somewhat Negative''} \<and>
                Daily_Study_Work_Hours r \<in>
                  {''2'' @ en_dash @ ''4 hours'', ''5'' @ en_dash @ ''7 hours''})"
proof -
  have "regime_of s = Heavy \<longleftrightarrow> s > 6" "regime_of s = Light \<longleftrightarrow> s < 3"
    "regime_of s = Average \<longleftrightarrow> 3 \<le> s \<and> s \<le> 6" for s
    by (auto simp: regime_of_def)
  moreover note regime_generate_row [OF assms(2)]
  ultimately show ?thesis
    using assms(1)
    by (simp add: nth_generate_survey_data Let_def heavy_user_def light_user_def
        average_user_def split: regime.splits)
qed

theorem regime_partition_witness:
  "(0::nat) < nat 1 \<and> valid_draw (draw_with_score 7) \<and> regime_of 7 = Heavy \<and>
   Distraction_Frequency (rows (generate_survey_data 1 (\<lambda>_. draw_with_score 7)) ! 0) \<in>
     {''Often'', ''Always''}"
  using regime_partition [of 0 1 "\<lambda>_. draw_with_score 7"]
  by (simp add: Let_def draw_with_score_def valid_draw_def unit_sample_def regime_of_def)

subsection \<open>Counts and domains\<close>

lemma domains_generate_row:
  assumes "valid_draw d"
  shows "Program_of_Study (generate_row d) \<in> set programs"
    and "Average_Daily_SM_Usage (generate_row d) \<in> set usage_buckets"
    and "Daily_Study_Work_Hours (generate_row d) \<in> set study_buckets"
    and "Distraction_Frequency (generate_row d) \<in> set distraction_levels"
    and "Productivity_Impact (generate_row d) \<in> set impact_levels"
proof -
  show "Program_of_Study (generate_row d) \<in> set programs"
    using assms
    by (simp only: program_generate_row) (rule choice_in_set, simp add: valid_draw_def programs_def)
  show "Average_Daily_SM_Usage (generate_row d) \<in> set usage_buckets"
    by (simp add: usage_generate_row Let_def usage_buckets_def)
  note r = regime_generate_row [OF assms]
  show "Daily_Study_Work_Hours (generate_row d) \<in> set study_buckets"
    using r by (cases "regime_of (hidden_sm_score d)")
      (auto simp: heavy_user_def light_user_def average_user_def study_buckets_def)
  show "Distraction_Frequency (generate_row d) \<in> set distraction_levels"
    using r by (cases "regime_of (hidden_sm_score d)")
      (auto simp: heavy_user_def light_user_def average_user_def distraction_levels_def)
  show "Productivity_Impact (generate_row d) \<in> set impact_levels"
    using r by (cases "regime_of (hidden_sm_score d)")
      (auto simp: heavy_user_def light_user_def average_user_def impact_levels_def)
qed

lemma domains_nonempty:
  "[] \<notin> set programs" "[] \<notin> set usage_buckets" "[] \<notin> set study_buckets"
  "[] \<notin> set distraction_levels" "[] \<notin> set impact_levels"
  by (simp_all add: programs_def usage_buckets_def study_buckets_def distraction_levels_def
      impact_levels_def)

lemma domains_size:
  "distinct programs \<and> length programs = 4"
  "distinct usage_buckets \<and> length usage_buckets = 5"
  "distinct study_buckets \<and> length study_buckets = 4"
  "distinct distraction_levels \<and> length distraction_levels = 5"
  "distinct impact_levels \<and> length impact_levels = 5"
  by (simp_all add: programs_def usage_buckets_def study_buckets_def distraction_levels_def
      impact_levels_def en_dash_def)

lemma domains_are_map_keys:
  "set usage_buckets = dom sm_map" "set study_buckets = dom study_map"
  by (auto simp: usage_buckets_def study_buckets_def sm_map_def study_map_def en_dash_def
      split: if_splits)

text \<open>
  C8. For a non-negative \<open>n\<close>, \<^verbatim>\<open>generate_survey_data(n)\<close> has exactly \<open>n\<close> rows (none
  for \<open>n = 0\<close>), and in each row the five categorical fields are non-empty strings of
  their fixed domains: 4 programs, 5 usage buckets, 4 study buckets, 5 distraction levels
  and 5 impact levels.
\<close>

theorem generate_count_and_domains:
  assumes "0 \<le> n" and "\<forall>i<nat n. valid_draw (rng i)"
  shows "int (length (rows (generate_survey_data n rng))) = n \<and>
         (n = 0 \<longrightarrow> rows (generate_survey_data n rng) = []) \<and>
         (\<forall>r\<in>set (rows (generate_survey_data n rng)).
            Program_of_Study r \<in> set programs \<and> Program_of_Study r \<noteq> [] \<and>
            Average_Daily_SM_Usage r \<in> set usage_buckets \<and> Average_Daily_SM_Usage r \<noteq> [] \<and>
            Daily_Study_Work_Hours r \<in> set study_buckets \<and> Daily_Study_Work_Hours r \<noteq> [] \<and>
            Distraction_Frequency r \<in> set distraction_levels \<and> Distraction_Frequency r \<noteq> [] \<and>
            Productivity_Impact r \<in> set impact_levels \<and> Productivity_Impact r \<noteq> []) \<and>
         distinct programs \<and> length programs = 4 \<and>
         distinct usage_buckets \<and> length usage_buckets = 5 \<and>
         distinct study_buckets \<and> length study_buckets = 4 \<and>
         distinct distraction_levels \<and> length distraction_levels = 5 \<and>
         distinct impact_levels \<and> length impact_levels = 5"
proof -
  have "int (length (rows (generate_survey_data n rng))) = n"
    using assms(1) by (simp add: rows_generate_survey_data)
  moreover have "n = 0 \<longrightarrow> rows (generate_survey_data n rng) = []"
    by (simp add: rows_generate_survey_data)
  moreover have "Program_of_Study r \<in> set programs \<and> Program_of_Study r \<noteq> [] \<and>
            Average_Daily_SM_Usage r \<in> set usage_buckets \<and> Average_Daily_SM_Usage r \<noteq> [] \<and>
            Daily_Study_Work_Hours r \<in> set study_buckets \<and> Daily_Study_Work_Hours r \<noteq> [] \<and>
            Distraction_Frequency r \<in> set distraction_levels \<and> Distraction_Frequency r \<noteq> [] \<and>
            Productivity_Impact r \<in> set impact_levels \<and> Productivity_Impact r \<noteq> []"
    if "r \<in> set (rows (generate_survey_data n rng))" for r
  proof -
    from that obtain i where "i < nat n" and r: "r = generate_row (rng i)"
      by (auto simp: rows_generate_survey_data)
    with assms(2) have "valid_draw (rng i)" by simp
    from domains_generate_row [OF this] domains_nonempty show ?thesis
      unfolding r by metis
  qed
  ultimately show ?thesis
    using domains_size by blast
qed

theorem generate_count_and_domains_witness:
  "(0::int) \<le> 2 \<and> valid_draw (draw_with_score 5) \<and>
   int (length (rows (generate_survey_data 2 (\<lambda>_. draw_with_score 5)))) = 2 \<and>
   rows (generate_survey_data 0 (\<lambda>_. draw_with_score 5)) = [] \<and>
   Program_of_Study (rows (generate_survey_data 2 (\<lambda>_. draw_with_score 5)) ! 1) \<in> set programs"
proof -
  have v: "valid_draw (draw_with_score 5)"
    by (simp add: draw_with_score_def valid_draw_def unit_sample_def)
  have m: "rows (generate_survey_data 2 (\<lambda>_. draw_with_score 5)) ! 1 \<in>
             set (rows (generate_survey_data 2 (\<lambda>_. draw_with_score 5)))"
    by (rule nth_mem) (simp add: rows_generate_survey_data)
  show ?thesis
    using v m generate_count_and_domains [of 2 "\<lambda>_. draw_with_score 5"]
      generate_count_and_domains [of 0 "\<lambda>_. draw_with_score 5"]
    by simp
qed

subsection \<open>Pairings of field values\<close>

text \<open>
  C9. A generated record whose distraction frequency is "Always" has an impact among
  "Somewhat Negative" and "Strongly Negative" and study hours among "Less than 2 hours"
  and "2-4 hours": the heavy branch's values, and none of the light branch's.
\<close>

theorem always_only_heavy:
  assumes "i < nat n" and "valid_draw (rng i)"
    and "Distraction_Frequency (rows (generate_survey_data n rng) ! i) = ''Always''"
  shows "let r = rows (generate_survey_data n rng) ! i in
           Productivity_Impact r \<in> {''Somewhat Negative'', ''Strongly Negative''} \<and>
           Daily_Study_Work_Hours r \<in> {''Less than 2 hours'', ''2'' @ en_dash @ ''4 hours''} \<and>
           Productivity_Impact r \<notin> {''Strongly Positive'', ''Somewhat Positive'', ''Neutral''} \<and>
           Daily_Study_Work_Hours r \<notin> {''5'' @ en_dash @ ''7 hours'', ''8+ hours''}"
proof -
  have a: "Distraction_Frequency (generate_row (rng i)) = ''Always''"
    using assms(1,3) by (simp add: nth_generate_survey_data)
  have "regime_of (hidden_sm_score (rng i)) = Heavy"
    using regime_generate_row [OF assms(2)] a
    by (cases "regime_of (hidden_sm_score (rng i))") (simp_all add: light_user_def average_user_def)
  with regime_generate_row [OF assms(2)] have "heavy_user (generate_row (rng i))"
    by simp
  then show ?thesis
    using assms(1) by (auto simp: nth_generate_survey_data heavy_user_def Let_def en_dash_def)
qed

theorem always_only_heavy_witness:
  "(0::nat) < nat 1 \<and> valid_draw (draw_with_score 9) \<and>
   Distraction_Frequency (rows (generate_survey_data 1 (\<lambda>_. draw_with_score 9)) ! 0) = ''Always'' \<and>
   Productivity_Impact (rows (generate_survey_data 1 (\<lambda>_. draw_with_score 9)) ! 0) \<in>
     {''Somewhat Negative'', ''Strongly Negative''}"
proof -
  have v: "valid_draw (draw_with_score 9)"
    by (simp add: draw_with_score_def valid_draw_def unit_sample_def)
  have a: "Distraction_Frequency (rows (generate_survey_data 1 (\<lambda>_. draw_with_score 9)) ! 0) =
             ''Always''"
    by (simp add: rows_generate_survey_data generate_row_def draw_with_score_def choice_p_def
        cumsum_def searchsorted_right_def Let_def)
  show ?thesis
    using v a always_only_heavy [of 0 1 "\<lambda>_. draw_with_score 9"]
    by (simp add: Let_def)
qed

subsection \<open>Buckets against regimes\<close>

text \<open>
  C10. The bucket thresholds (2, 4, 6, 8) and the regime thresholds (3, 6) are not aligned,
  and yet three buckets fix the regime: a generated record with "More than 6 hours" has
  the heavy branch's values, one with "Less than 1 hour" the light branch's, one with
  "3-4 hours" the average branch's. The other two buckets each occur with two regimes:
  "1-2 hours" with Light and Average, "5-6 hours" with Average and Heavy.
\<close>

theorem bucket_fixes_regime:
  assumes "i < nat n" and "valid_draw (rng i)"
  shows "let r = rows (generate_survey_data n rng) ! i;
             g = regime_of (hidden_sm_score (rng i)) in
           (Average_Daily_SM_Usage r = ''More than 6 hours'' \<longrightarrow> g = Heavy \<and> heavy_user r) \<and>
           (Average_Daily_SM_Usage r = ''Less than 1 hour'' \<longrightarrow> g = Light \<and> light_user r) \<and>
           (Average_Daily_SM_Usage r = ''3'' @ en_dash @ ''4 hours'' \<longrightarrow>
              g = Average \<and> average_user r) \<and>
           (Average_Daily_SM_Usage r = ''1'' @ en_dash @ ''2 hours'' \<longrightarrow> g \<in> {Light, Average}) \<and>
           (Average_Daily_SM_Usage r = ''5'' @ en_dash @ ''6 hours'' \<longrightarrow> g \<in> {Average, Heavy}) \<and>
           (\<exists>d d'. valid_draw d \<and> valid_draw d' \<and>
              Average_Daily_SM_Usage (generate_row d) = ''1'' @ en_dash @ ''2 hours'' \<and>
              Average_Daily_SM_Usage (generate_row d') = ''1'' @ en_dash @ ''2 hours'' \<and>
              regime_of (hidden_sm_score d) = Light \<and>
              regime_of (hidden_sm_score d') = Average) \<and>
           (\<exists>d d'. valid_draw d \<and> valid_draw d' \<and>
              Average_Daily_SM_Usage (generate_row d) = ''5'' @ en_dash @ ''6 hours'' \<and>
              Average_Daily_SM_Usage (generate_row d') = ''5'' @ en_dash @ ''6 hours'' \<and>
              regime_of (hidden_sm_score d) = Average \<and>
              regime_of (hidden_sm_score d') = Heavy)"
proof -
  define d where "d = rng i"
  define g where "g = regime_of (hidden_sm_score d)"
  have r: "rows (generate_survey_data n rng) ! i = generate_row d"
    using assms(1) by (simp add: nth_generate_survey_data d_def)
  have tab: "case g of Heavy \<Rightarrow> heavy_user (generate_row d)
      | Light \<Rightarrow> light_user (generate_row d) | Average \<Rightarrow> average_user (generate_row d)"
    unfolding g_def d_def by (rule regime_generate_row [OF assms(2)])
  have more: "g = Heavy \<and> heavy_user (generate_row d)"
    if "Average_Daily_SM_Usage (generate_row d) = ''More than 6 hours''"
  proof -
    have "g = Heavy"
      using that by (simp add: usage_generate_row Let_def g_def regime_of_def en_dash_def
          split: if_splits)
    with tab show ?thesis by simp
  qed
  have less: "g = Light \<and> light_user (generate_row d)"
    if "Average_Daily_SM_Usage (generate_row d) = ''Less than 1 hour''"
  proof -
    have "g = Light"
      using that by (simp add: usage_generate_row Let_def g_def regime_of_def en_dash_def
          split: if_splits)
    with tab show ?thesis by simp
  qed
  have mid: "g = Average \<and> average_user (generate_row d)"
    if "Average_Daily_SM_Usage (generate_row d) = ''3'' @ en_dash @ ''4 hours''"
  proof -
    have "g = Average"
      using that by (simp add: usage_generate_row Let_def g_def regime_of_def en_dash_def
          split: if_splits)
    with tab show ?thesis by simp
  qed
  have low: "g \<in> {Light, Average}"
    if "Average_Daily_SM_Usage (generate_row d) = ''1'' @ en_dash @ ''2 hours''"
    using that by (simp add: usage_generate_row Let_def g_def regime_of_def en_dash_def
        split: if_splits)
  have high: "g \<in> {Average, Heavy}"
    if "Average_Daily_SM_Usage (generate_row d) = ''5'' @ en_dash @ ''6 hours''"
    using that by (simp add: usage_generate_row Let_def g_def regime_of_def en_dash_def
        split: if_splits)
  have v: "valid_draw (draw_with_score s)" for s
    by (simp add: draw_with_score_def valid_draw_def unit_sample_def)
  have both_low: "\<exists>d d'. valid_draw d \<and> valid_draw d' \<and>
      Average_Daily_SM_Usage (generate_row d) = ''1'' @ en_dash @ ''2 hours'' \<and>
      Average_Daily_SM_Usage (generate_row d') = ''1'' @ en_dash @ ''2 hours'' \<and>
      regime_of (hidden_sm_score d) = Light \<and> regime_of (hidden_sm_score d') = Average"
    by (rule exI [of _ "draw_with_score 2"], rule exI [of _ "draw_with_score 3"])
      (simp add: v usage_generate_row Let_def regime_of_def, simp add: draw_with_score_def)
  have both_high: "\<exists>d d'. valid_draw d \<and> valid_draw d' \<and>
      Average_Daily_SM_Usage (generate_row d) = ''5'' @ en_dash @ ''6 hours'' \<and>
      Average_Daily_SM_Usage (generate_row d') = ''5'' @ en_dash @ ''6 hours'' \<and>
      regime_of (hidden_sm_score d) = Average \<and> regime_of (hidden_sm_score d') = Heavy"
    by (rule exI [of _ "draw_with_score 6"], rule exI [of _ "draw_with_score 7"])
      (simp add: v usage_generate_row Let_def regime_of_def, simp add: draw_with_score_def)
  show ?thesis
    unfolding Let_def r d_def [symmetric] g_def [symmetric]
    using more less mid low high both_low both_high by blast
qed

theorem bucket_fixes_regime_witness:
  "(0::nat) < nat 1 \<and> valid_draw (draw_with_score 9) \<and>
   Average_Daily_SM_Usage (rows (generate_survey_data 1 (\<lambda>_. draw_with_score 9)) ! 0) =
     ''More than 6 hours'' \<and>
   regime_of (hidden_sm_score (draw_with_score 9)) = Heavy \<and>
   heavy_user (rows (generate_survey_data 1 (\<lambda>_. draw_with_score 9)) ! 0)"
proof -
  have v: "valid_draw (draw_with_score 9)"
    by (simp add: draw_with_score_def valid_draw_def unit_sample_def)
  have a: "Average_Daily_SM_Usage (rows (generate_survey_data 1 (\<lambda>_. draw_with_score 9)) ! 0) =
             ''More than 6 hours''"
    by (simp add: rows_generate_survey_data usage_generate_row Let_def draw_with_score_def)
  show ?thesis
    using v a bucket_fixes_regime [of 0 1 "\<lambda>_. draw_with_score 9"]
    by (simp add: Let_def)
qed

section \<open>Properties of the callback\<close>

subsection \<open>The callback, with the heap resolved\<close>

lemma pick_map: "pick (map P xs) xs = filter P xs"
  by (induction xs) (simp_all add: pick_def)

lemma rows_pd_concat: "rows (pd_concat a b) = rows a @ rows b"
  by (simp add: pd_concat_def)

lemma rows_select_rows:
  "rows (select_rows (map (\<lambda>r. Program_of_Study r = sel) (rows g)) g) = selected_rows sel (rows g)"
  by (simp add: select_rows_def pick_map selected_rows_def)

lemma update_dashboard_unfold:
  "update_dashboard df_global n sel rng ux uy =
     (let g = pd_concat df_global (generate_survey_data 1 rng);
          kept = retained_rows sel (rows g);
          xs = add_array (map (\<lambda>r. sm_map (Average_Daily_SM_Usage r)) kept)
                 (uniform (- 0.3) 0.3 (length kept) ux);
          ys = add_array (map (\<lambda>r. study_map (Daily_Study_Work_Hours r)) kept)
                 (uniform (- 0.3) 0.3 (length kept) uy)
      in (if selected_rows sel (rows g) = []
          then g\<lparr>SM_Numeric := Some xs, Study_Numeric := Some ys\<rparr> else g,
          \<lparr>scatter_plot =
             \<lparr>scatter_title = ''Correlation ('' @ sel @ '')'',
              points = zip xs (zip ys (map Distraction_Frequency kept))\<rparr>,
           distraction_bar =
             \<lparr>bar_title = ''Distraction Frequency'',
              bars = value_counts (map Distraction_Frequency kept)\<rparr>,
           impact_pie =
             \<lparr>pie_title = ''Perceived Impact'', names = map Productivity_Impact kept\<rparr>,
           live_stats = ''Total Responses: '' @ str_nat (length (rows g))\<rparr>))"
proof (cases "selected_rows sel (rows (pd_concat df_global (generate_survey_data 1 rng))) = []")
  case True
  then show ?thesis
    by (simp add: update_dashboard_def Let_def rows_select_rows retained_rows_def
        set_SM_Numeric_def set_Study_Numeric_def)
next
  case False
  then show ?thesis
    by (simp add: update_dashboard_def Let_def rows_select_rows retained_rows_def
        set_SM_Numeric_def set_Study_Numeric_def)
qed


lemma rows_generate_one: "rows (generate_survey_data 1 rng) = [generate_row (rng 0)]"
  by (simp add: rows_generate_survey_data)

lemma rows_update_dashboard:
  "rows (fst (update_dashboard df n sel rng ux uy)) = rows df @ [generate_row (rng 0)]"
  by (simp add: update_dashboard_unfold Let_def rows_pd_concat rows_generate_one)

lemma live_stats_update_dashboard:
  "live_stats (snd (update_dashboard df n sel rng ux uy)) =
     ''Total Responses: '' @ str_nat (length (rows df) + 1)"
  by (simp add: update_dashboard_unfold Let_def rows_pd_concat rows_generate_one)

lemma nth_uniform: "i < n \<Longrightarrow> uniform (- 0.3) 0.3 n u ! i = jitter u i"
  by (simp add: uniform_def jitter_def)

lemma length_uniform: "length (uniform low high n u) = n"
  by (simp add: uniform_def)

lemma add_array_uniform:
  "add_array (map f rs) (uniform (- 0.3) 0.3 (length rs) u) =
     map (\<lambda>i. map_option (\<lambda>m. m + jitter u i) (f (rs ! i))) [0..<length rs]"
  by (rule nth_equalityI) (simp_all add: add_array_def length_uniform nth_uniform)

lemma chart_data_update_dashboard:
  "chart_data (snd (update_dashboard df n sel rng ux uy)) =
     charts_of (retained_rows sel (rows df @ [generate_row (rng 0)])) ux uy"
proof -
  have "zip (map f [0..<k]) (zip (map g [0..<k]) (map h rs)) =
          map (\<lambda>i. (f i, g i, h (rs ! i))) [0..<k]" if "k = length rs"
    for f :: "nat \<Rightarrow> real option" and g :: "nat \<Rightarrow> real option" and h :: "row \<Rightarrow> string"
      and k rs
    using that by (intro nth_equalityI) simp_all
  then show ?thesis
    by (simp add: update_dashboard_unfold Let_def rows_pd_concat rows_generate_one chart_data_def
        charts_of_def add_array_uniform)
qed

subsection \<open>Dataset growth\<close>

text \<open>
  C5. Every call of the callback leaves a dataset one record longer than it found,
  whatever the selected program and the dataset before.
\<close>

theorem refresh_appends_one:
  "length (rows (fst (update_dashboard df n selected_program rng ux uy))) =
     length (rows df) + 1"
  by (simp add: rows_update_dashboard)

subsection \<open>Summary text\<close>

text \<open>
  The texts and the dataset lengths along a sequence of calls, by induction on the
  sequence.
\<close>

lemma serve_summaries:
  "map (\<lambda>(df', out). live_stats out) (serve df es) =
     map (\<lambda>(df', out). ''Total Responses: '' @ str_nat (length (rows df'))) (serve df es) \<and>
   map (\<lambda>(df', out). length (rows df')) (serve df es) =
     map (\<lambda>k. length (rows df) + k + 1) [0..<length es]"
proof (induction es arbitrary: df)
  case Nil
  show ?case by simp
next
  case (Cons e es)
  define res where
    "res = update_dashboard df (n_intervals e) (selected e) (draws e) (samples_x e) (samples_y e)"
  have len: "length (rows (fst res)) = length (rows df) + 1"
    by (simp add: res_def rows_update_dashboard)
  have summary: "live_stats (snd res) = ''Total Responses: '' @ str_nat (length (rows (fst res)))"
    by (simp add: len) (simp add: res_def live_stats_update_dashboard)
  have shift: "map (\<lambda>k. length (rows df) + k + 1) [0..<length (e # es)] =
      (length (rows df) + 1) # map (\<lambda>k. length (rows (fst res)) + k + 1) [0..<length es]"
    by (simp add: len upt_conv_Cons map_Suc_upt [symmetric] del: upt_Suc)
  show ?case
    using Cons.IH [of "fst res"] summary len
    unfolding shift by (simp add: res_def [symmetric] Let_def split_beta)
qed


subsection \<open>The fallback\<close>

text \<open>
  C4. When no record of the dataset, the new one included, has the selected program, the
  call builds its chart data from the whole dataset: the data are those of the
  specification's steps 3 to 6 applied to all records, with no filter. The callback has no
  branch that raises; an unknown program only takes this fallback.
\<close>

theorem fallback_uses_whole_dataset:
  assumes "selected_rows selected_program (rows df @ [generate_row (rng 0)]) = []"
  shows "let res = update_dashboard df n selected_program rng ux uy;
             dataset = rows df @ [generate_row (rng 0)] in
           rows (fst res) = dataset \<and> chart_data (snd res) = charts_of dataset ux uy"
  using assms
  by (simp add: Let_def rows_update_dashboard chart_data_update_dashboard retained_rows_def)

lemma generate_fashion_row: "generate_row fashion_draw = fashion_row"
  by (simp add: fashion_draw_def draw_with_score_def fashion_row_def generate_row_def Let_def
      choice_def programs_def choice_p_def cumsum_def searchsorted_right_def)

lemma replicate_101: "replicate 101 x = x # replicate 100 x"
proof -
  have "(101::nat) = Suc 100" by simp
  then show ?thesis by (simp only: replicate_Suc)
qed

lemma rows_startup: "rows startup = replicate 100 fashion_row"
  by (simp add: startup_def rows_generate_survey_data generate_fashion_row map_replicate_const)

theorem fallback_uses_whole_dataset_witness:
  "selected_rows ''Physics'' (rows startup @ [generate_row fashion_draw]) = [] \<and>
   rows (fst (update_dashboard startup 0 ''Physics'' (\<lambda>_. fashion_draw) (\<lambda>_. 0) (\<lambda>_. 0))) =
     rows startup @ [generate_row fashion_draw] \<and>
   chart_data (snd (update_dashboard startup 0 ''Physics'' (\<lambda>_. fashion_draw) (\<lambda>_. 0) (\<lambda>_. 0))) =
     charts_of (rows startup @ [generate_row fashion_draw]) (\<lambda>_. 0) (\<lambda>_. 0)"
proof -
  have "selected_rows ''Physics'' (rows startup @ [generate_row fashion_draw]) = []"
    by (simp add: selected_rows_def rows_startup generate_fashion_row fashion_row_def)
  then show ?thesis
    using fallback_uses_whole_dataset
      [of "''Physics''" startup "\<lambda>_. fashion_draw" 0 "\<lambda>_. 0" "\<lambda>_. 0"]
    by (simp add: Let_def)
qed

subsection \<open>Jitter in exact arithmetic\<close>

lemma jitter_bounds:
  assumes "unit_sample (u i)"
  shows "- 0.3 \<le> jitter u i" and "jitter u i \<le> 0.3"
  using assms by (simp_all add: jitter_def unit_sample_def)

lemma midpoints:
  "sm_map ''Less than 1 hour'' = Some 0.5"
  "sm_map (''1'' @ en_dash @ ''2 hours'') = Some 1.5"
  "sm_map (''3'' @ en_dash @ ''4 hours'') = Some 3.5"
  "sm_map (''5'' @ en_dash @ ''6 hours'') = Some 5.5"
  "sm_map ''More than 6 hours'' = Some 7"
  "study_map ''Less than 2 hours'' = Some 1"
  "study_map (''2'' @ en_dash @ ''4 hours'') = Some 3"
  "study_map (''5'' @ en_dash @ ''7 hours'') = Some 6"
  "study_map ''8+ hours'' = Some 9"
  by (simp_all add: sm_map_def study_map_def en_dash_def)

subsection \<open>Aliasing of the dataset in the fallback\<close>

lemma update_dashboard_copy_path:
  assumes "selected_rows sel (rows df @ [generate_row (rng 0)]) \<noteq> []"
  shows "fst (update_dashboard df n sel rng ux uy) = pd_concat df (generate_survey_data 1 rng)"
  using assms by (simp add: update_dashboard_unfold Let_def rows_pd_concat rows_generate_one)

lemma update_dashboard_alias_path:
  assumes "selected_rows sel (rows df @ [generate_row (rng 0)]) = []"
  shows "SM_Numeric (fst (update_dashboard df n sel rng ux uy)) =
           Some (map (\<lambda>i. map_option (\<lambda>m. m + jitter ux i)
                   (sm_map (Average_Daily_SM_Usage ((rows df @ [generate_row (rng 0)]) ! i))))
                 [0..<length (rows df) + 1])"
    and "Study_Numeric (fst (update_dashboard df n sel rng ux uy)) =
           Some (map (\<lambda>i. map_option (\<lambda>m. m + jitter uy i)
                   (study_map (Daily_Study_Work_Hours ((rows df @ [generate_row (rng 0)]) ! i))))
                 [0..<length (rows df) + 1])"
  using assms
  by (simp_all add: update_dashboard_unfold Let_def rows_pd_concat rows_generate_one
      retained_rows_def add_array_uniform)

text \<open>
  C3. The claim: the jittered midpoints are never stored in the dataset, so that a call
  leaves the records it found as they were. The call below is the first one after a
  start-up whose 100 rows are all "Fashion design" rows, with the dropdown's initial
  value "Data science" and a 101st row of the same kind. No row matches, line 98 binds
  \<^verbatim>\<open>filtered_df\<close> to the dataset itself and not to a copy, and lines 101-105 write both
  numeric columns into it: every record of the dataset, the 100 old ones included, now
  carries its jittered midpoints (3.5 - 0.3 and 6 - 0.3). The next call, which does find
  rows, keeps the stored columns and gives the record it appends NaN in both.
\<close>

theorem fallback_stores_projections:
  "let df' = fst (update_dashboard startup 0 ''Data science''
                    (\<lambda>_. fashion_draw) (\<lambda>_. 0) (\<lambda>_. 0));
       df'' = fst (update_dashboard df' 1 ''Fashion design''
                    (\<lambda>_. fashion_draw) (\<lambda>_. 0) (\<lambda>_. 0))
   in SM_Numeric startup = None \<and> Study_Numeric startup = None \<and>
      rows df' = rows startup @ [fashion_row] \<and>
      SM_Numeric df' = Some (replicate 101 (Some 3.2)) \<and>
      Study_Numeric df' = Some (replicate 101 (Some 5.7)) \<and>
      SM_Numeric df'' = Some (replicate 101 (Some 3.2) @ [None]) \<and>
      Study_Numeric df'' = Some (replicate 101 (Some 5.7) @ [None])"
proof -
  define df' where
    "df' = fst (update_dashboard startup 0 ''Data science'' (\<lambda>_. fashion_draw) (\<lambda>_. 0) (\<lambda>_. 0))"
  have none: "selected_rows ''Data science'' (rows startup @ [generate_row fashion_draw]) = []"
    by (simp add: selected_rows_def rows_startup generate_fashion_row fashion_row_def)
  have all: "rows startup @ [generate_row fashion_draw] = replicate 101 fashion_row"
    by (simp add: rows_startup generate_fashion_row replicate_append_same replicate_101)
  have len: "length (rows startup) + 1 = 101"
    by (simp add: rows_startup)
  have rows': "rows df' = rows startup @ [fashion_row]"
    by (simp add: df'_def rows_update_dashboard generate_fashion_row)
  have sm: "sm_map (Average_Daily_SM_Usage fashion_row) = Some 3.5"
    and st: "study_map (Daily_Study_Work_Hours fashion_row) = Some 6"
    by (simp_all add: fashion_row_def sm_map_def study_map_def en_dash_def)
  have sm': "SM_Numeric df' = Some (replicate 101 (Some 3.2))"
    unfolding df'_def update_dashboard_alias_path(1) [OF none] all len
    by (simp, rule nth_equalityI) (simp_all add: sm jitter_def)
  have st': "Study_Numeric df' = Some (replicate 101 (Some 5.7))"
    unfolding df'_def update_dashboard_alias_path(2) [OF none] all len
    by (simp, rule nth_equalityI) (simp_all add: st jitter_def)
  have some: "selected_rows ''Fashion design'' (rows df' @ [generate_row fashion_draw]) \<noteq> []"
    by (simp add: selected_rows_def generate_fashion_row fashion_row_def)
  have len': "length (rows df') = 101"
    by (simp add: rows' rows_startup)
  have next_call: "fst (update_dashboard df' 1 ''Fashion design'' (\<lambda>_. fashion_draw) (\<lambda>_. 0) (\<lambda>_. 0)) =
      pd_concat df' (generate_survey_data 1 (\<lambda>_. fashion_draw))"
    by (rule update_dashboard_copy_path [OF some])
  have "SM_Numeric startup = None" "Study_Numeric startup = None"
    by (simp_all add: startup_def generate_survey_data_def DataFrame_def)
  moreover have "SM_Numeric (pd_concat df' (generate_survey_data 1 (\<lambda>_. fashion_draw))) =
      Some (replicate 101 (Some 3.2) @ [None])"
    by (simp add: pd_concat_def sm' generate_survey_data_def DataFrame_def)
  moreover have "Study_Numeric (pd_concat df' (generate_survey_data 1 (\<lambda>_. fashion_draw))) =
      Some (replicate 101 (Some 5.7) @ [None])"
    by (simp add: pd_concat_def st' generate_survey_data_def DataFrame_def)
  ultimately show ?thesis
    unfolding Let_def df'_def [symmetric] next_call
    using rows' sm' st' by simp
qed

subsection \<open>Decimal numerals\<close>

lemma of_char_digit: "k < 10 \<Longrightarrow> of_char (digit k) = 48 + k"
proof -
  assume "k < 10"
  then have "k \<in> {0, 1, 2, 3, 4, 5, 6, 7, 8, 9}" by auto
  then show ?thesis by (auto simp: digit_def)
qed

lemma parse_nat_str_nat: "parse_nat (str_nat n) = n"
proof (induction n rule: str_nat.induct)
  case (1 n)
  show ?case
  proof (cases "n < 10")
    case True
    then show ?thesis
      by (simp add: str_nat.simps [of n] parse_nat_def of_char_digit)
  next
    case False
    with 1 have "parse_nat (str_nat (n div 10)) = n div 10" by simp
    with False show ?thesis
      by (simp add: str_nat.simps [of n] parse_nat_def of_char_digit)
  qed
qed

lemma summary_text_after_startup:
  "live_stats (snd (update_dashboard startup 0 ''Data science''
      (\<lambda>_. fashion_draw) (\<lambda>_. 0) (\<lambda>_. 0))) = ''Total Responses: 101''"
  by (simp add: live_stats_update_dashboard rows_startup str_nat.simps [of 101]
      str_nat.simps [of 10] str_nat.simps [of "Suc 0"] digit_def)

lemma str_nat_nonempty: "str_nat n \<noteq> []"
  by (subst str_nat.simps) simp

lemma digit_in_digits: "k < 10 \<Longrightarrow> digit k \<in> set ''0123456789''"
proof -
  assume "k < 10"
  then have "k \<in> {0, 1, 2, 3, 4, 5, 6, 7, 8, 9}" by auto
  then show ?thesis by (auto simp: digit_def)
qed

lemma digit_zero_iff: "k < 10 \<Longrightarrow> digit k = CHR ''0'' \<longleftrightarrow> k = 0"
proof -
  assume "k < 10"
  then have "k \<in> {0, 1, 2, 3, 4, 5, 6, 7, 8, 9}" by auto
  then show ?thesis by (auto simp: digit_def)
qed

lemma set_str_nat: "set (str_nat n) \<subseteq> set ''0123456789''"
proof (induction n rule: str_nat.induct)
  case (1 n)
  show ?case
  proof (cases "n < 10")
    case True
    then show ?thesis
      using digit_in_digits [of n] by (subst str_nat.simps) simp
  next
    case False
    with 1 have "set (str_nat (n div 10)) \<subseteq> set ''0123456789''" by simp
    moreover have "digit (n mod 10) \<in> set ''0123456789''"
      by (rule digit_in_digits) simp
    ultimately show ?thesis
      using False by (subst str_nat.simps) simp
  qed
qed

lemma hd_str_nat: "hd (str_nat n) = CHR ''0'' \<Longrightarrow> n = 0"
proof (induction n rule: str_nat.induct)
  case (1 n)
  show ?case
  proof (cases "n < 10")
    case True
    with "1.prems" show ?thesis
      by (simp add: str_nat.simps [of n] digit_zero_iff)
  next
    case False
    with "1.prems" have "hd (str_nat (n div 10)) = CHR ''0''"
      by (simp add: str_nat.simps [of n] str_nat_nonempty)
    with 1 False have "n div 10 = 0" by simp
    with False show ?thesis by simp
  qed
qed

lemma decimal_of_str_nat: "decimal_of (str_nat n) n"
proof -
  have "hd (str_nat n) = CHR ''0'' \<longrightarrow> str_nat n = ''0''"
  proof
    assume "hd (str_nat n) = CHR ''0''"
    then have "n = 0" by (rule hd_str_nat)
    then show "str_nat n = ''0''"
      by (simp add: str_nat.simps [of 0] digit_def)
  qed
  then show ?thesis
    unfolding decimal_of_def
    using str_nat_nonempty [of n] set_str_nat [of n] parse_nat_str_nat [of n] by blast
qed

lemma length_serve: "length (serve df es) = length es"
  by (induction es arbitrary: df) (simp_all add: Let_def)

subsection \<open>Summary text\<close>

text \<open>
  C6. Along every sequence of calls, from every starting dataset: the \<open>k\<close>-th call leaves
  a dataset of the starting length plus \<open>k + 1\<close> records, and the text it returns is
  "Total Responses: " followed by the decimal numeral of that length, the length of the
  whole dataset after the call's own append and not of the filtered rows.
\<close>

theorem summary_text_counts_dataset:
  assumes "k < length es"
  shows "let df' = fst (serve df es ! k); out = snd (serve df es ! k) in
           length (rows df') = length (rows df) + k + 1 \<and>
           (\<exists>s. live_stats out = ''Total Responses: '' @ s \<and>
                decimal_of s (length (rows df')))"
proof -
  have k: "k < length (serve df es)"
    using assms by (simp add: length_serve)
  note both = serve_summaries [of df es]
  have "map (\<lambda>(df', out). length (rows df')) (serve df es) ! k =
      map (\<lambda>k. length (rows df) + k + 1) [0..<length es] ! k"
    by (simp only: both [THEN conjunct2])
  then have len: "length (rows (fst (serve df es ! k))) = length (rows df) + k + 1"
    using k assms by (simp add: split_beta)
  have "map (\<lambda>(df', out). live_stats out) (serve df es) ! k =
      map (\<lambda>(df', out). ''Total Responses: '' @ str_nat (length (rows df'))) (serve df es) ! k"
    by (simp only: both [THEN conjunct1])
  then have "live_stats (snd (serve df es ! k)) =
      ''Total Responses: '' @ str_nat (length (rows (fst (serve df es ! k))))"
    using k by (simp add: split_beta)
  with len decimal_of_str_nat show ?thesis
    unfolding Let_def by blast
qed

theorem summary_text_counts_dataset_witness:
  "(0::nat) < length [first_event] \<and>
   length (rows (fst (serve startup [first_event] ! 0))) = 101 \<and>
   live_stats (snd (serve startup [first_event] ! 0)) = ''Total Responses: 101'' \<and>
   (\<exists>s. live_stats (snd (serve startup [first_event] ! 0)) = ''Total Responses: '' @ s \<and>
        decimal_of s 101)"
proof -
  have call: "serve startup [first_event] ! 0 =
      update_dashboard startup 0 ''Data science'' (\<lambda>_. fashion_draw) (\<lambda>_. 0) (\<lambda>_. 0)"
    by (simp add: first_event_def Let_def)
  have stats: "live_stats (snd (serve startup [first_event] ! 0)) = ''Total Responses: 101''"
    unfolding call by (rule summary_text_after_startup)
  have len: "length (rows (fst (serve startup [first_event] ! 0))) = 101"
    unfolding call by (simp add: rows_update_dashboard rows_startup)
  have "\<exists>s. live_stats (snd (serve startup [first_event] ! 0)) = ''Total Responses: '' @ s \<and>
        decimal_of s 101"
    using summary_text_counts_dataset [of 0 "[first_event]" startup]
    by (simp only: Let_def len) simp
  with stats len show ?thesis by simp
qed

section \<open>The scatter in double arithmetic\<close>

subsection \<open>Rounding to the nearest double\<close>

lemma rne_error: "\<bar>of_int (rne y) - y\<bar> \<le> 1 / 2"
  unfolding rne_def Let_def by (auto | linarith)+

lemma rne_le_int: "y \<le> of_int k \<Longrightarrow> rne y \<le> k"
proof -
  assume y: "y \<le> of_int k"
  then have f: "\<lfloor>y\<rfloor> \<le> k" by (simp add: floor_le_iff)
  show ?thesis
  proof (cases "\<lfloor>y\<rfloor> = k")
    case True
    then have "y = of_int k" using y by linarith
    then show ?thesis by (simp add: rne_def)
  next
    case False
    with f have "\<lfloor>y\<rfloor> + 1 \<le> k" by simp
    then show ?thesis unfolding rne_def Let_def by auto
  qed
qed

lemma rne_nonneg: "0 \<le> y \<Longrightarrow> 0 \<le> rne y"
  unfolding rne_def Let_def by auto

lemma rne_of_int: "rne (of_int k) = k"
  by (simp add: rne_def)

lemma ulp_pos: "0 < ulp x"
  by (simp add: ulp_def)

lemma binade_mono: "0 < \<bar>x\<bar> \<Longrightarrow> \<bar>x\<bar> \<le> \<bar>y\<bar> \<Longrightarrow> binade x \<le> binade y"
  unfolding binade_def by (intro floor_mono) simp

lemma binade_eqI: "2 powi e \<le> \<bar>x\<bar> \<Longrightarrow> \<bar>x\<bar> < 2 powi (e + 1) \<Longrightarrow> binade x = e"
proof -
  assume a: "2 powi e \<le> \<bar>x\<bar>" and b: "\<bar>x\<bar> < 2 powi (e + 1)"
  have pos: "0 < \<bar>x\<bar>"
    using a zero_less_power_int [of "2::real" e] by linarith
  have p: "(2::real) powr real_of_int k = 2 powi k" for k
    by (rule powr_real_of_int') simp_all
  have "\<lfloor>log 2 \<bar>x\<bar>\<rfloor> = e \<longleftrightarrow>
      2 powr real_of_int e \<le> \<bar>x\<bar> \<and> \<bar>x\<bar> < 2 powr real_of_int (e + 1)"
    by (rule floor_log_eq_powr_iff) (use pos in simp_all)
  then show ?thesis
    unfolding binade_def p using a b by blast
qed


lemma binade_minus: "binade (- x) = binade x"
  by (simp add: binade_def)

lemma ulp_minus: "ulp (- x) = ulp x"
  by (simp add: ulp_def binade_minus)

lemma fl_minus: "fl (- x) = - fl x"
  by (simp add: fl_def ulp_minus sgn_minus)

lemma fl_nonneg: "0 \<le> x \<Longrightarrow> 0 \<le> fl x"
proof -
  assume x: "0 \<le> x"
  then have "0 \<le> rne (\<bar>x\<bar> / ulp x)"
    using ulp_pos [of x] by (intro rne_nonneg) simp
  then show ?thesis
    using x ulp_pos [of x] by (simp add: fl_def sgn_if)
qed

lemma fl_nonpos: "x \<le> 0 \<Longrightarrow> fl x \<le> 0"
  using fl_nonneg [of "- x"] by (simp add: fl_minus)

lemma fl_representable: "representable r \<Longrightarrow> fl r = r"
proof -
  assume "representable r"
  then obtain k :: int where k: "\<bar>r\<bar> = of_int k * ulp r"
    by (auto simp: representable_def)
  then have "\<bar>r\<bar> / ulp r = of_int k"
    using ulp_pos [of r] by simp
  then have "fl r = sgn r * \<bar>r\<bar>"
    by (simp add: fl_def rne_of_int k)
  then show ?thesis
    by (simp add: sgn_if)
qed

lemma ulp_ratio:
  assumes "0 < \<bar>x\<bar>" and "\<bar>x\<bar> \<le> \<bar>y\<bar>"
  shows "\<exists>d::nat. ulp y = 2 ^ d * ulp x"
proof -
  define ex where "ex = max (binade x) (- 1022) - 52"
  define ey where "ey = max (binade y) (- 1022) - 52"
  have "ex \<le> ey"
    using binade_mono [OF assms] by (simp add: ex_def ey_def)
  then have "(2::real) powi ey = 2 powi (ey - ex) * 2 powi ex"
    by (simp flip: power_int_add)
  moreover have "(2::real) powi (ey - ex) = 2 ^ nat (ey - ex)"
    using \<open>ex \<le> ey\<close> by (simp add: power_int_def)
  ultimately show ?thesis
    unfolding ulp_def ex_def [symmetric] ey_def [symmetric] by auto
qed

lemma fl_le_representable_pos:
  assumes x: "0 < x" and le: "x \<le> r" and r: "representable r"
  shows "fl x \<le> r"
proof -
  from r obtain k :: int where k: "\<bar>r\<bar> = of_int k * ulp r"
    by (auto simp: representable_def)
  from x le have rpos: "0 < r" by simp
  obtain d :: nat where d: "ulp r = 2 ^ d * ulp x"
    using ulp_ratio [of x r] x le by auto
  have rk: "r = of_int (k * 2 ^ d) * ulp x"
    using k d rpos by simp
  have "x \<le> of_int (k * 2 ^ d) * ulp x"
    using le rk by simp
  then have "x / ulp x \<le> of_int (k * 2 ^ d)"
    using ulp_pos [of x] by (simp only: pos_divide_le_eq)
  then have "rne (x / ulp x) \<le> k * 2 ^ d"
    by (rule rne_le_int)
  then have "real_of_int (rne (x / ulp x)) \<le> real_of_int (k * 2 ^ d)"
    by (simp only: of_int_le_iff)
  then have "real_of_int (rne (x / ulp x)) * ulp x \<le> real_of_int (k * 2 ^ d) * ulp x"
    using ulp_pos [of x] by (intro mult_right_mono) simp_all
  moreover have "fl x = real_of_int (rne (x / ulp x)) * ulp x"
    using x by (simp add: fl_def)
  ultimately show ?thesis
    using rk by (simp only:)
qed

lemma fl_le_representable:
  assumes "x \<le> r" and "0 \<le> r" and "representable r"
  shows "fl x \<le> r"
proof (cases "0 < x")
  case True
  then show ?thesis using assms by (intro fl_le_representable_pos)
next
  case False
  then have "fl x \<le> 0" by (intro fl_nonpos) simp
  with assms show ?thesis by simp
qed

lemma representable_minus: "representable (- r) = representable r"
  by (simp add: representable_def ulp_minus)

lemma fl_ge_representable:
  assumes "- r \<le> x" and "0 \<le> r" and "representable r"
  shows "- r \<le> fl x"
  using fl_le_representable [of "- x" r] assms by (simp add: fl_minus)

lemma fl_error: "\<bar>fl x - x\<bar> \<le> ulp x / 2"
proof -
  have pos: "\<bar>fl x - x\<bar> \<le> ulp x / 2" if "0 \<le> x" for x
  proof -
    have "x / ulp x * ulp x = x"
      using ulp_pos [of x] by simp
    then have split: "(real_of_int (rne (x / ulp x)) - x / ulp x) * ulp x =
        real_of_int (rne (x / ulp x)) * ulp x - x"
      by (simp only: left_diff_distrib)
    have "fl x = real_of_int (rne (x / ulp x)) * ulp x"
    proof (cases "x = 0")
      case True
      then show ?thesis by (simp add: fl_def rne_def)
    next
      case False
      with that show ?thesis by (simp add: fl_def)
    qed
    with split have "fl x - x = (of_int (rne (x / ulp x)) - x / ulp x) * ulp x"
      by (simp only:)
    then have "\<bar>fl x - x\<bar> = \<bar>of_int (rne (x / ulp x)) - x / ulp x\<bar> * ulp x"
      using ulp_pos [of x] by (simp add: abs_mult)
    also have "\<dots> \<le> 1 / 2 * ulp x"
      using rne_error [of "x / ulp x"] ulp_pos [of x] by (intro mult_right_mono) simp_all
    finally show ?thesis by simp
  qed
  show ?thesis
  proof (cases "0 \<le> x")
    case True
    then show ?thesis by (rule pos)
  next
    case False
    then have "\<bar>fl (- x) - (- x)\<bar> \<le> ulp (- x) / 2" by (intro pos) simp
    then have "\<bar>x - fl x\<bar> \<le> ulp x / 2" by (simp add: fl_minus ulp_minus)
    then show ?thesis by (simp only: abs_minus_commute)
  qed
qed


lemma binade_le: "x \<noteq> 0 \<Longrightarrow> \<bar>x\<bar> < 2 powi (e + 1) \<Longrightarrow> binade x \<le> e"
proof -
  assume x: "x \<noteq> 0" and b: "\<bar>x\<bar> < 2 powi (e + 1)"
  have p: "(2::real) powr real_of_int k = 2 powi k" for k
    by (rule powr_real_of_int') simp_all
  have "\<bar>x\<bar> < 2 powr real_of_int (e + 1)"
    using b by (simp only: p)
  moreover have "0 < \<bar>x\<bar>" "(1::real) < 2"
    using x by simp_all
  ultimately have "log 2 \<bar>x\<bar> < real_of_int (e + 1)"
    by (simp only: log_less_iff)
  then have "\<lfloor>log 2 \<bar>x\<bar>\<rfloor> < e + 1"
    by (simp only: floor_less_iff)
  then show ?thesis by (simp add: binade_def)
qed

lemma ulp_le: "x \<noteq> 0 \<Longrightarrow> \<bar>x\<bar> < 2 powi (e + 1) \<Longrightarrow> - 1022 \<le> e \<Longrightarrow> ulp x \<le> 2 powi (e - 52)"
proof -
  assume "x \<noteq> 0" "\<bar>x\<bar> < 2 powi (e + 1)" and e: "- 1022 \<le> e"
  then have "binade x \<le> e" by (intro binade_le)
  with e have "max (binade x) (- 1022) - 52 \<le> e - 52" by simp
  then show ?thesis
    unfolding ulp_def by (intro power_int_increasing) simp_all
qed

lemma ulp_eqI: "2 powi e \<le> \<bar>x\<bar> \<Longrightarrow> \<bar>x\<bar> < 2 powi (e + 1) \<Longrightarrow> - 1022 \<le> e \<Longrightarrow> ulp x = 2 powi (e - 52)"
  by (simp add: ulp_def binade_eqI)

lemma ulp_03: "ulp 0.3 = 2 powi (- 54)"
  using ulp_eqI [of "- 2" "0.3"] by simp

lemma fl_03: "fl 0.3 = 5404319552844595 / 2 ^ 54"
  by (simp add: fl_def ulp_03 rne_def power_int_minus)

lemma fl_eval:
  assumes "2 powi e \<le> x" and "x < 2 powi (e + 1)" and "- 1022 \<le> e"
  shows "fl x = of_int (rne (x / 2 powi (e - 52))) * 2 powi (e - 52)"
proof -
  have pos: "0 < x"
    using assms(1) zero_less_power_int [of "2::real" e] by linarith
  then have "ulp x = 2 powi (e - 52)"
    using assms by (intro ulp_eqI) simp_all
  with pos show ?thesis by (simp add: fl_def)
qed

lemma representableI:
  assumes "2 powi e \<le> r" and "r < 2 powi (e + 1)" and "- 1022 \<le> e"
    and "r = of_int k * 2 powi (e - 52)"
  shows "representable r"
proof -
  have pos: "0 < r"
    using assms(1) zero_less_power_int [of "2::real" e] by linarith
  then have "ulp r = 2 powi (e - 52)"
    using assms by (intro ulp_eqI) simp_all
  with pos assms(4) show ?thesis
    unfolding representable_def by (intro exI [of _ k]) simp
qed

lemma representable_03: "representable (fl 0.3)"
  unfolding fl_03
  by (rule representableI [of "- 2" _ 5404319552844595]) (simp_all add: power_int_minus)

lemma representable_06: "representable (2 * fl 0.3)"
  unfolding fl_03
  by (rule representableI [of "- 1" _ 5404319552844595]) (simp_all add: power_int_minus)

lemma fl_range: "fl (fl 0.3 - - fl 0.3) = 2 * fl 0.3"
proof -
  have "fl 0.3 - - fl 0.3 = 2 * fl 0.3" by simp
  then show ?thesis
    using fl_representable [OF representable_06] by (simp only:)
qed

lemma fl_03_bounds: "0 \<le> fl 0.3" "fl 0.3 \<le> 0.3"
  by (simp_all add: fl_03)

lemma jitter_double_bounds:
  assumes "0 \<le> u" and "u < 1"
  shows "- fl 0.3 \<le> fl (- fl 0.3 + fl (fl (fl 0.3 - - fl 0.3) * u))"
    and "fl (- fl 0.3 + fl (fl (fl 0.3 - - fl 0.3) * u)) \<le> fl 0.3"
proof -
  define a where "a = fl 0.3"
  have a: "0 \<le> a" "representable a" "representable (2 * a)"
    by (simp_all add: a_def fl_03_bounds representable_03 representable_06)
  define t where "t = fl (2 * a * u)"
  have "0 \<le> 2 * a * u" "2 * a * u \<le> 2 * a"
    using assms a(1) by (simp_all add: mult_left_le)
  then have t: "0 \<le> t" "t \<le> 2 * a"
    using a by (simp_all add: t_def fl_nonneg fl_le_representable)
  then have "- a \<le> - a + t" "- a + t \<le> a" by simp_all
  then have "- a \<le> fl (- a + t)" "fl (- a + t) \<le> a"
    using a by (simp_all add: fl_ge_representable fl_le_representable)
  then show "- fl 0.3 \<le> fl (- fl 0.3 + fl (fl (fl 0.3 - - fl 0.3) * u))"
    and "fl (- fl 0.3 + fl (fl (fl 0.3 - - fl 0.3) * u)) \<le> fl 0.3"
    unfolding fl_range by (simp_all only: a_def t_def)
qed

lemma fl_sum_error:
  assumes m: "1 / 2 \<le> m" "m \<le> 9" and j: "- 0.3 \<le> j" "j \<le> 0.3"
  shows "\<bar>fl (m + j) - m\<bar> \<le> 0.3 + 2 powi (- 50)"
proof -
  have "m + j \<noteq> 0" "\<bar>m + j\<bar> < 2 powi (3 + 1)"
    using m j by simp_all
  then have "ulp (m + j) \<le> 2 powi (3 - 52)"
    by (intro ulp_le) simp_all
  then have "ulp (m + j) / 2 \<le> 2 powi (- 50)"
    by (simp add: power_int_minus)
  with fl_error [of "m + j"] have "\<bar>fl (m + j) - (m + j)\<bar> \<le> 2 powi (- 50)"
    by linarith
  with j show ?thesis by linarith
qed

lemma fl_zero: "fl 0 = 0"
  by (simp add: fl_def)

lemma jitter_double_zero: "fl (- fl 0.3 + fl (fl (fl 0.3 - - fl 0.3) * 0)) = - fl 0.3"
  using fl_representable [OF representable_03] by (simp add: fl_zero fl_minus)

lemma sum_one: "fl (1 + - fl 0.3) = 6305039478318694 / 2 ^ 53"
  unfolding fl_03
  by (subst fl_eval [of "- 1"]) (simp_all add: rne_def power_int_minus)

lemma sum_five_half: "fl (5.5 + - fl 0.3) = 5854679515581645 / 2 ^ 50"
  unfolding fl_03
  by (subst fl_eval [of 2]) (simp_all add: rne_def power_int_minus)

lemma sum_one_outside: "(6305039478318694 / 2 ^ 53 :: real) - 1 < - 0.3"
  by simp


lemma fl_one: "fl 1 = 1"
  by (subst fl_eval [of 0]) (simp_all add: rne_def power_int_minus)

subsection \<open>The points of the scatter\<close>

lemma scatter_points_exact:
  "scatter_points_with (\<lambda>x. x) df selected_program rng ux uy =
     points (scatter_plot (snd (update_dashboard df n selected_program rng ux uy)))"
  by (simp add: scatter_points_with_def update_dashboard_unfold Let_def uniform_with_def
      uniform_def add_array_with_def add_array_def)

lemma nth_uniform_with:
  "i < n \<Longrightarrow> uniform_with rnd low high n u ! i = rnd (low + rnd (rnd (high - low) * u i))"
  by (simp add: uniform_with_def)

lemma jitter_double_half: "fl (- fl 0.3 + fl (fl (fl 0.3 - - fl 0.3) * (1 / 2))) = 0"
proof -
  have "2 * fl 0.3 * (1 / 2) = fl 0.3" by simp
  moreover have "fl (fl 0.3) = fl 0.3"
    by (rule fl_representable [OF representable_03])
  moreover have "- fl 0.3 + fl 0.3 = 0" by simp
  ultimately show ?thesis
    unfolding fl_range by (simp only: fl_zero)
qed

lemma jitter_at_zero: "uniform_with fl (- fl 0.3) (fl 0.3) 1 (\<lambda>_. 0) ! 0 = - fl 0.3"
  by (simp only: nth_uniform_with [OF zero_less_one] jitter_double_zero)

lemma jitter_at_half: "uniform_with fl (- fl 0.3) (fl 0.3) 1 (\<lambda>_. 1 / 2) ! 0 = 0"
  by (simp only: nth_uniform_with [OF zero_less_one] jitter_double_half)

lemma length_uniform_with: "length (uniform_with rnd low high n u) = n"
  by (simp add: uniform_with_def)

lemma nth_scatter_points_with:
  assumes "kept = retained_rows selected_program (rows df @ [generate_row (rng 0)])"
    and "i < length kept"
  shows "scatter_points_with rnd df selected_program rng ux uy ! i =
     (map_option
        (\<lambda>m. rnd (m + uniform_with rnd (- rnd 0.3) (rnd 0.3) (length kept) ux ! i))
        (sm_map (Average_Daily_SM_Usage (kept ! i))),
      map_option
        (\<lambda>m. rnd (m + uniform_with rnd (- rnd 0.3) (rnd 0.3) (length kept) uy ! i))
        (study_map (Daily_Study_Work_Hours (kept ! i))),
      Distraction_Frequency (kept ! i))"
  using assms(2) unfolding assms(1)
  by (simp add: scatter_points_with_def Let_def rows_pd_concat rows_generate_one
      add_array_with_def length_uniform_with)

lemma length_scatter_points_with:
  "length (scatter_points_with rnd df selected_program rng ux uy) =
     length (retained_rows selected_program (rows df @ [generate_row (rng 0)]))"
  by (simp add: scatter_points_with_def Let_def rows_pd_concat rows_generate_one
      add_array_with_def length_uniform_with)

lemma sm_map_range: "sm_map l = Some m \<Longrightarrow> 1 / 2 \<le> m \<and> m \<le> 9"
  by (auto simp: sm_map_def split: if_splits)

lemma study_map_range: "study_map l = Some m \<Longrightarrow> 1 / 2 \<le> m \<and> m \<le> 9"
  by (auto simp: study_map_def split: if_splits)

lemma generate_science_row: "generate_row science_draw = science_row"
  by (simp add: science_draw_def science_row_def generate_row_def Let_def
      choice_def programs_def choice_p_def cumsum_def searchsorted_right_def)

lemma kept_science:
  "retained_rows ''Data science'' (rows startup @ [generate_row science_draw]) = [science_row]"
  by (simp add: retained_rows_def selected_rows_def rows_startup generate_science_row
      fashion_row_def science_row_def)

lemma science_midpoints:
  "sm_map (Average_Daily_SM_Usage science_row) = Some 5.5"
  "study_map (Daily_Study_Work_Hours science_row) = Some 1"
  "Distraction_Frequency science_row = ''Always''"
  by (simp_all add: science_row_def sm_map_def study_map_def en_dash_def)

lemma science_point:
  "scatter_points_with fl startup ''Data science'' (\<lambda>_. science_draw) ux uy ! 0 =
     (Some (fl (5.5 + uniform_with fl (- fl 0.3) (fl 0.3) 1 ux ! 0)),
      Some (fl (1 + uniform_with fl (- fl 0.3) (fl 0.3) 1 uy ! 0)), ''Always'')"
proof -
  have "scatter_points_with fl startup ''Data science'' (\<lambda>_. science_draw) ux uy ! 0 =
     (map_option
        (\<lambda>m. fl (m + uniform_with fl (- fl 0.3) (fl 0.3) (length [science_row]) ux ! 0))
        (sm_map (Average_Daily_SM_Usage ([science_row] ! 0))),
      map_option
        (\<lambda>m. fl (m + uniform_with fl (- fl 0.3) (fl 0.3) (length [science_row]) uy ! 0))
        (study_map (Daily_Study_Work_Hours ([science_row] ! 0))),
      Distraction_Frequency ([science_row] ! 0))"
    by (rule nth_scatter_points_with) (simp_all add: kept_science)
  moreover have "length [science_row] = 1" "[science_row] ! 0 = science_row"
    by simp_all
  ultimately show ?thesis
    by (simp only: science_midpoints option.map)
qed

lemma science_point_zero:
  "scatter_points_with fl startup ''Data science'' (\<lambda>_. science_draw) (\<lambda>_. 0) (\<lambda>_. 0) ! 0 =
     (Some (5854679515581645 / 2 ^ 50), Some (6305039478318694 / 2 ^ 53), ''Always'')"
  by (simp only: science_point jitter_at_zero sum_one sum_five_half)

subsection \<open>Jitter\<close>

text \<open>
  C7, as the claim states it: every plotted coordinate lies within 0.3 of its midpoint.
  In the call below the only retained record is a "Data science" row with study bucket
  "Less than 2 hours", midpoint 1, and both unit samples are 0, so both jitters are the
  double -0.3. The sum 1 + -0.3 is rounded to the double 6305039478318694 / 2^53 =
  0.69999999999999995559..., which is below 1 - 0.3: the plotted y lies more than 0.3
  from its midpoint.
\<close>

theorem double_sum_leaves_interval:
  "let kept = retained_rows ''Data science'' (rows startup @ [generate_row science_draw]);
       pts = scatter_points_with fl startup ''Data science'' (\<lambda>_. science_draw)
               (\<lambda>_. 0) (\<lambda>_. 0);
       y = 6305039478318694 / 2 ^ 53
   in kept = [science_row] \<and>
      study_map (Daily_Study_Work_Hours (kept ! 0)) = Some 1 \<and>
      pts = [(Some (5854679515581645 / 2 ^ 50), Some y, ''Always'')] \<and>
      \<not> (- 0.3 \<le> y - 1 \<and> y - 1 \<le> 0.3)"
proof -
  have "scatter_points_with fl startup ''Data science'' (\<lambda>_. science_draw) (\<lambda>_. 0) (\<lambda>_. 0) =
      [(Some (5854679515581645 / 2 ^ 50), Some (6305039478318694 / 2 ^ 53), ''Always'')]"
    by (rule nth_equalityI)
      (simp_all add: length_scatter_points_with kept_science science_point_zero)
  moreover have "study_map (Daily_Study_Work_Hours science_row) = Some 1"
    by (rule science_midpoints)
  ultimately show ?thesis
    using kept_science sum_one_outside by (simp add: Let_def)
qed

text \<open>
  C7, amended to what the doubles allow. In every call the scatter has one point per
  retained record, in order. The midpoints are those of the two tables. Point \<open>i\<close> has
  jitters of its own, one per axis: the values that the two \<^verbatim>\<open>np.random.uniform\<close> arrays
  hold at \<open>i\<close>, each computed from its own unit sample, and each in [-0.3, 0.3]. Each
  coordinate is the double nearest to midpoint plus jitter (NaN for a label with no
  midpoint), and so lies within 0.3 + 2^-50 of the midpoint.
\<close>

theorem double_jitter_bounds:
  assumes "\<forall>i. unit_sample (ux i) \<and> unit_sample (uy i)"
  shows "let kept = retained_rows selected_program (rows df @ [generate_row (rng 0)]);
             pts = scatter_points_with fl df selected_program rng ux uy;
             jx = uniform_with fl (- fl 0.3) (fl 0.3) (length kept) ux;
             jy = uniform_with fl (- fl 0.3) (fl 0.3) (length kept) uy
         in map sm_map usage_buckets = [Some 0.5, Some 1.5, Some 3.5, Some 5.5, Some 7] \<and>
            map study_map study_buckets = [Some 1, Some 3, Some 6, Some 9] \<and>
            length pts = length kept \<and>
            (\<forall>i<length kept.
               jx ! i = fl (- fl 0.3 + fl (fl (fl 0.3 - - fl 0.3) * ux i)) \<and>
               jy ! i = fl (- fl 0.3 + fl (fl (fl 0.3 - - fl 0.3) * uy i)) \<and>
               - 0.3 \<le> jx ! i \<and> jx ! i \<le> 0.3 \<and> - 0.3 \<le> jy ! i \<and> jy ! i \<le> 0.3 \<and>
               pts ! i =
                 (map_option (\<lambda>m. fl (m + jx ! i)) (sm_map (Average_Daily_SM_Usage (kept ! i))),
                  map_option (\<lambda>m. fl (m + jy ! i)) (study_map (Daily_Study_Work_Hours (kept ! i))),
                  Distraction_Frequency (kept ! i)) \<and>
               (\<forall>m. sm_map (Average_Daily_SM_Usage (kept ! i)) = Some m \<longrightarrow>
                  \<bar>fl (m + jx ! i) - m\<bar> \<le> 0.3 + 2 powi (- 50)) \<and>
               (\<forall>m. study_map (Daily_Study_Work_Hours (kept ! i)) = Some m \<longrightarrow>
                  \<bar>fl (m + jy ! i) - m\<bar> \<le> 0.3 + 2 powi (- 50)))"
proof -
  define kept where "kept = retained_rows selected_program (rows df @ [generate_row (rng 0)])"
  define pts where "pts = scatter_points_with fl df selected_program rng ux uy"
  define jx where "jx = uniform_with fl (- fl 0.3) (fl 0.3) (length kept) ux"
  define jy where "jy = uniform_with fl (- fl 0.3) (fl 0.3) (length kept) uy"
  have tables: "map sm_map usage_buckets = [Some 0.5, Some 1.5, Some 3.5, Some 5.5, Some 7]"
    "map study_map study_buckets = [Some 1, Some 3, Some 6, Some 9]"
    by (simp_all add: usage_buckets_def study_buckets_def sm_map_def study_map_def en_dash_def)
  have len: "length pts = length kept"
    by (simp add: pts_def kept_def length_scatter_points_with)
  have point: "jx ! i = fl (- fl 0.3 + fl (fl (fl 0.3 - - fl 0.3) * ux i)) \<and>
      jy ! i = fl (- fl 0.3 + fl (fl (fl 0.3 - - fl 0.3) * uy i)) \<and>
      - 0.3 \<le> jx ! i \<and> jx ! i \<le> 0.3 \<and> - 0.3 \<le> jy ! i \<and> jy ! i \<le> 0.3 \<and>
      pts ! i =
        (map_option (\<lambda>m. fl (m + jx ! i)) (sm_map (Average_Daily_SM_Usage (kept ! i))),
         map_option (\<lambda>m. fl (m + jy ! i)) (study_map (Daily_Study_Work_Hours (kept ! i))),
         Distraction_Frequency (kept ! i)) \<and>
      (\<forall>m. sm_map (Average_Daily_SM_Usage (kept ! i)) = Some m \<longrightarrow>
         \<bar>fl (m + jx ! i) - m\<bar> \<le> 0.3 + 2 powi (- 50)) \<and>
      (\<forall>m. study_map (Daily_Study_Work_Hours (kept ! i)) = Some m \<longrightarrow>
         \<bar>fl (m + jy ! i) - m\<bar> \<le> 0.3 + 2 powi (- 50))" if i: "i < length kept" for i
  proof -
    have ux: "0 \<le> ux i" "ux i < 1" and uy: "0 \<le> uy i" "uy i < 1"
      using assms by (simp_all add: unit_sample_def)
    have jx_eq: "jx ! i = fl (- fl 0.3 + fl (fl (fl 0.3 - - fl 0.3) * ux i))"
      and jy_eq: "jy ! i = fl (- fl 0.3 + fl (fl (fl 0.3 - - fl 0.3) * uy i))"
      using i by (simp_all only: jx_def jy_def nth_uniform_with)
    have bx: "- 0.3 \<le> jx ! i" "jx ! i \<le> 0.3"
      using jitter_double_bounds [OF ux] fl_03_bounds unfolding jx_eq by linarith+
    have by': "- 0.3 \<le> jy ! i" "jy ! i \<le> 0.3"
      using jitter_double_bounds [OF uy] fl_03_bounds unfolding jy_eq by linarith+
    have p: "pts ! i =
        (map_option (\<lambda>m. fl (m + jx ! i)) (sm_map (Average_Daily_SM_Usage (kept ! i))),
         map_option (\<lambda>m. fl (m + jy ! i)) (study_map (Daily_Study_Work_Hours (kept ! i))),
         Distraction_Frequency (kept ! i))"
      unfolding pts_def jx_def jy_def using kept_def i by (rule nth_scatter_points_with)
    have ex: "\<bar>fl (m + jx ! i) - m\<bar> \<le> 0.3 + 2 powi (- 50)"
      if "sm_map (Average_Daily_SM_Usage (kept ! i)) = Some m" for m
      using sm_map_range [OF that] bx by (intro fl_sum_error) simp_all
    have ey: "\<bar>fl (m + jy ! i) - m\<bar> \<le> 0.3 + 2 powi (- 50)"
      if "study_map (Daily_Study_Work_Hours (kept ! i)) = Some m" for m
      using study_map_range [OF that] by' by (intro fl_sum_error) simp_all
    from jx_eq jy_eq bx by' p ex ey show ?thesis by blast
  qed
  show ?thesis
    unfolding Let_def kept_def [symmetric] pts_def [symmetric] jx_def [symmetric]
      jy_def [symmetric]
    using tables len point by blast
qed

theorem double_jitter_bounds_witness:
  "unit_sample 0 \<and> unit_sample (1 / 2) \<and>
   (0::nat) < length (retained_rows ''Data science'' (rows startup @ [generate_row science_draw])) \<and>
   uniform_with fl (- fl 0.3) (fl 0.3) 1 (\<lambda>_. 0) ! 0 = - (5404319552844595 / 2 ^ 54) \<and>
   uniform_with fl (- fl 0.3) (fl 0.3) 1 (\<lambda>_. 1 / 2) ! 0 = 0 \<and>
   scatter_points_with fl startup ''Data science'' (\<lambda>_. science_draw) (\<lambda>_. 0) (\<lambda>_. 1 / 2) ! 0 =
     (Some (5854679515581645 / 2 ^ 50), Some 1, ''Always'') \<and>
   \<bar>5854679515581645 / 2 ^ 50 - 5.5\<bar> \<le> (0.3 + 2 powi (- 50) :: real)"
proof -
  have u: "\<forall>i::nat. unit_sample ((\<lambda>_. 0) i) \<and> unit_sample ((\<lambda>_. 1 / 2) i)"
    by (simp add: unit_sample_def)
  have jx: "uniform_with fl (- fl 0.3) (fl 0.3) 1 (\<lambda>_. 0) ! 0 = - (5404319552844595 / 2 ^ 54)"
    using jitter_at_zero by (simp only: fl_03)
  have p: "scatter_points_with fl startup ''Data science'' (\<lambda>_. science_draw)
        (\<lambda>_. 0) (\<lambda>_. 1 / 2) ! 0 =
      (Some (5854679515581645 / 2 ^ 50), Some 1, ''Always'')"
    by (simp only: science_point jitter_at_zero jitter_at_half sum_five_half add_0_right fl_one)
  have "\<bar>5854679515581645 / 2 ^ 50 - 5.5\<bar> \<le> (0.3 + 2 powi (- 50) :: real)"
    by (simp add: power_int_minus)
  with p jx jitter_at_half show ?thesis
    using double_jitter_bounds [OF u, of "''Data science''" startup "\<lambda>_. science_draw"]
    by (simp add: unit_sample_def kept_science)
qed

end
